theory Spec2Isabelle
  imports Main "HOL-Library.AList"
begin

section \<open>Python values and text primitives used by \<^verbatim>\<open>rasterio/_crs.pyx\<close>\<close>

text \<open>
  The module is read with Python 3 semantics (dictionaries keep insertion order, \<^verbatim>\<open>str\<close>
  is text, \<^verbatim>\<open>int\<close> is unbounded) over ASCII text. A parameter value is a scalar: none,
  a boolean, an integer, a float or a string. A float is identified by its \<^verbatim>\<open>repr\<close>, the
  shortest decimal text that reads back as the same double; no floating-point arithmetic
  is carried out in this theory.
\<close>

type_synonym pyfloat = string

datatype pyval = PNone | PBool bool | PInt int | PFloat pyfloat | PStr string

text \<open>
  The exceptions that can leave the module. The message is kept for the domain error
  \<^verbatim>\<open>CRSError\<close> and for the engine's \<^verbatim>\<open>CPLE_BaseError\<close>; exceptions raised by
  the interpreter itself or by \<^verbatim>\<open>raise ValueError("A string is expected")\<close> are
  identified by their class.
\<close>

datatype pyerror =
    CRSError string
  | ValueError
  | TypeError
  | AttributeError
  | CPLE_BaseError string


subsection \<open>Truth value, \<^verbatim>\<open>str\<close> and \<^verbatim>\<open>repr\<close>\<close>

fun truthy :: "pyval \<Rightarrow> bool" where
  "truthy PNone = False"
| "truthy (PBool b) = b"
| "truthy (PInt i) = (i \<noteq> 0)"
| "truthy (PFloat r) = (r \<noteq> ''0.0'' \<and> r \<noteq> ''-0.0'')"
| "truthy (PStr s) = (s \<noteq> [])"

definition digit_char :: "nat \<Rightarrow> char" where
  "digit_char d = ''0123456789'' ! (d mod 10)"

function nat_digits :: "nat \<Rightarrow> string" where
  "nat_digits n = (if n < 10 then [digit_char n] else nat_digits (n div 10) @ [digit_char n])"
  by pat_completeness auto
termination
  by (relation "measure id") auto

definition int_str :: "int \<Rightarrow> string" where
  "int_str i = (if i < 0 then CHR ''-'' # nat_digits (nat (- i)) else nat_digits (nat i))"

definition hex_char :: "nat \<Rightarrow> char" where
  "hex_char d = ''0123456789abcdef'' ! (d mod 16)"

text \<open>\<^verbatim>\<open>repr\<close> of an ASCII string, as Python 3 prints it.\<close>

definition repr_char :: "char \<Rightarrow> char \<Rightarrow> string" where
  "repr_char q c =
     (if c = q \<or> c = CHR 0x5C then [CHR 0x5C, c]
      else if c = CHR 0x09 then [CHR 0x5C, CHR ''t'']
      else if c = CHR 0x0A then [CHR 0x5C, CHR ''n'']
      else if c = CHR 0x0D then [CHR 0x5C, CHR ''r'']
      else if (of_char c :: nat) < 32 \<or> 127 \<le> (of_char c :: nat)
        then [CHR 0x5C, CHR ''x'', hex_char (of_char c div 16), hex_char (of_char c)]
      else [c])"

definition str_repr :: "string \<Rightarrow> string" where
  "str_repr s =
     (let q = (if CHR 0x27 \<in> set s \<and> CHR 0x22 \<notin> set s then CHR 0x22 else CHR 0x27)
      in q # concat (map (repr_char q) s) @ [q])"

fun py_str :: "pyval \<Rightarrow> string" where
  "py_str PNone = ''None''"
| "py_str (PBool b) = (if b then ''True'' else ''False'')"
| "py_str (PInt i) = int_str i"
| "py_str (PFloat r) = r"
| "py_str (PStr s) = s"

fun py_repr :: "pyval \<Rightarrow> string" where
  "py_repr (PStr s) = str_repr s"
| "py_repr v = py_str v"

subsection \<open>\<^verbatim>\<open>str.strip\<close>, \<^verbatim>\<open>str.lstrip\<close>, \<^verbatim>\<open>str.split\<close>, \<^verbatim>\<open>str.upper\<close>, \<^verbatim>\<open>str.join\<close>\<close>

definition is_space :: "char \<Rightarrow> bool" where
  "is_space c = (c \<in> set [CHR 0x09, CHR 0x0A, CHR 0x0B, CHR 0x0C, CHR 0x0D,
                            CHR 0x1C, CHR 0x1D, CHR 0x1E, CHR 0x1F, CHR 0x20])"

definition strip :: "string \<Rightarrow> string" where
  "strip s = rev (dropWhile is_space (rev (dropWhile is_space s)))"

definition lstrip :: "char \<Rightarrow> string \<Rightarrow> string" where
  "lstrip c s = dropWhile (\<lambda>x. x = c) s"

text \<open>\<^verbatim>\<open>s.split()\<close>: the maximal runs of non-whitespace characters.\<close>

fun split_ws :: "string \<Rightarrow> string \<Rightarrow> string list" where
  "split_ws cur [] = (if cur = [] then [] else [cur])"
| "split_ws cur (c # cs) =
     (if is_space c then (if cur = [] then split_ws [] cs else cur # split_ws [] cs)
      else split_ws (cur @ [c]) cs)"

definition split :: "string \<Rightarrow> string list" where
  "split s = split_ws [] s"

text \<open>\<^verbatim>\<open>s.split(sep)\<close> for a one-character separator: cut at every occurrence.\<close>

fun split_sep :: "char \<Rightarrow> string \<Rightarrow> string \<Rightarrow> string list" where
  "split_sep sep cur [] = [cur]"
| "split_sep sep cur (c # cs) =
     (if c = sep then cur # split_sep sep [] cs else split_sep sep (cur @ [c]) cs)"

definition split_on :: "char \<Rightarrow> string \<Rightarrow> string list" where
  "split_on sep s = split_sep sep [] s"

definition upper_char :: "char \<Rightarrow> char" where
  "upper_char c =
     (if 97 \<le> (of_char c :: nat) \<and> (of_char c :: nat) \<le> 122
      then char_of ((of_char c :: nat) - 32) else c)"

definition upper :: "string \<Rightarrow> string" where
  "upper s = map upper_char s"

definition lower_char :: "char \<Rightarrow> char" where
  "lower_char c =
     (if 65 \<le> (of_char c :: nat) \<and> (of_char c :: nat) \<le> 90
      then char_of ((of_char c :: nat) + 32) else c)"

definition startswith :: "string \<Rightarrow> string \<Rightarrow> bool" where
  "startswith s p = (take (length p) s = p)"

fun join :: "string \<Rightarrow> string list \<Rightarrow> string" where
  "join sep [] = []"
| "join sep [x] = x"
| "join sep (x # y # ys) = x @ sep @ join sep (y # ys)"

subsection \<open>\<^verbatim>\<open>int(text)\<close> and \<^verbatim>\<open>float(text)\<close>\<close>

definition is_digit :: "char \<Rightarrow> bool" where
  "is_digit c = (48 \<le> (of_char c :: nat) \<and> (of_char c :: nat) \<le> 57)"

definition digit_val :: "char \<Rightarrow> nat" where
  "digit_val c = (of_char c :: nat) - 48"

text \<open>
  A run of decimal digits in which single underscores may separate digits
  (\<^verbatim>\<open>1_000\<close>), read after its first digit; the value so far is \<open>acc\<close>.
\<close>

fun digits_value :: "nat \<Rightarrow> string \<Rightarrow> nat option" where
  "digits_value acc [] = Some acc"
| "digits_value acc [c] = (if is_digit c then Some (acc * 10 + digit_val c) else None)"
| "digits_value acc (c # d # cs) =
     (if is_digit c then digits_value (acc * 10 + digit_val c) (d # cs)
      else if c = CHR ''_'' \<and> is_digit d then digits_value (acc * 10 + digit_val d) cs
      else None)"

definition nat_of_digits :: "string \<Rightarrow> nat option" where
  "nat_of_digits s =
     (case s of [] \<Rightarrow> None
      | c # cs \<Rightarrow> if is_digit c then digits_value (digit_val c) cs else None)"

text \<open>\<^verbatim>\<open>int(v)\<close> for a string: \<open>None\<close> stands for \<^verbatim>\<open>ValueError\<close>.\<close>

definition int_of_str :: "string \<Rightarrow> int option" where
  "int_of_str v =
     (case strip v of
        [] \<Rightarrow> None
      | c # cs \<Rightarrow>
          if c = CHR ''-'' then map_option (\<lambda>n. - int n) (nat_of_digits cs)
          else if c = CHR ''+'' then map_option int (nat_of_digits cs)
          else map_option int (nat_of_digits (c # cs)))"

text \<open>
  The text that remains after a run of digits (with single underscores between digits)
  whose first digit has been read already.
\<close>

fun after_digits :: "string \<Rightarrow> string" where
  "after_digits [] = []"
| "after_digits [c] = (if is_digit c then [] else [c])"
| "after_digits (c # d # cs) =
     (if is_digit c then after_digits (d # cs)
      else if c = CHR ''_'' \<and> is_digit d then after_digits cs
      else c # d # cs)"

definition scan_digits :: "string \<Rightarrow> string option" where
  "scan_digits s =
     (case s of [] \<Rightarrow> None
      | c # cs \<Rightarrow> if is_digit c then Some (after_digits cs) else None)"

definition drop_sign :: "string \<Rightarrow> string" where
  "drop_sign s =
     (case s of [] \<Rightarrow> []
      | c # cs \<Rightarrow> if c = CHR ''+'' \<or> c = CHR ''-'' then cs else c # cs)"

definition exponent_ok :: "string \<Rightarrow> bool" where
  "exponent_ok r =
     (case r of [] \<Rightarrow> True
      | c # cs \<Rightarrow> (c = CHR ''e'' \<or> c = CHR ''E'') \<and> scan_digits (drop_sign cs) = Some [])"

definition number_ok :: "string \<Rightarrow> bool" where
  "number_ok s =
     (case scan_digits s of
        Some r \<Rightarrow>
          (case r of
             [] \<Rightarrow> True
           | c # cs \<Rightarrow>
               if c = CHR ''.'' then
                 (case scan_digits cs of Some r' \<Rightarrow> exponent_ok r' | None \<Rightarrow> exponent_ok cs)
               else exponent_ok r)
      | None \<Rightarrow>
          (case s of
             [] \<Rightarrow> False
           | c # cs \<Rightarrow>
               c = CHR ''.'' \<and>
               (case scan_digits cs of Some r' \<Rightarrow> exponent_ok r' | None \<Rightarrow> False)))"

text \<open>The texts that \<^verbatim>\<open>float(v)\<close> accepts.\<close>

definition is_float_literal :: "string \<Rightarrow> bool" where
  "is_float_literal v =
     (let u = drop_sign (strip v)
      in map lower_char u \<in> set [''inf'', ''infinity'', ''nan''] \<or> number_ok u)"

text \<open>
  \<^verbatim>\<open>float(v)\<close>: \<open>None\<close> stands for \<^verbatim>\<open>ValueError\<close>. Which double an accepted text
  denotes is the interpreter's business: \<open>fl v\<close> is the \<^verbatim>\<open>repr\<close> of that double.
\<close>

definition float_of_str :: "(string \<Rightarrow> pyfloat) \<Rightarrow> string \<Rightarrow> pyfloat option" where
  "float_of_str fl v = (if is_float_literal v then Some (fl v) else None)"


section \<open>The parameter key registry\<close>

text \<open>
  \<^verbatim>\<open>_param_data.split("\n")\<close>: the table of PROJ4 parameters, one line each, between
  the empty first and last line of the triple-quoted text.
\<close>

definition param_data_lines :: "string list" where
  "param_data_lines = [
    '''',
    ''+a         Semimajor radius of the ellipsoid axis'',
    ''+alpha     ? Used with Oblique Mercator and possibly a few others'',
    ''+axis      Axis orientation (new in 4.8.0)'',
    ''+b         Semiminor radius of the ellipsoid axis'',
    ''+datum     Datum name (see `proj -ld`)'',
    ''+ellps     Ellipsoid name (see `proj -le`)'',
    ''+init      Initialize from a named CRS'',
    ''+k         Scaling factor (old name)'',
    ''+k_0       Scaling factor (new name)'',
    ''+lat_0     Latitude of origin'',
    ''+lat_1     Latitude of first standard parallel'',
    ''+lat_2     Latitude of second standard parallel'',
    ''+lat_ts    Latitude of true scale'',
    ''+lon_0     Central meridian'',
    ''+lonc      ? Longitude used with Oblique Mercator and possibly a few others'',
    ''+lon_wrap  Center longitude to use for wrapping (see below)'',
    ''+nadgrids  Filename of NTv2 grid file to use for datum transforms (see below)'',
    ''+no_defs   Don't use the /usr/share/proj/proj_def.dat defaults file'',
    ''+over      Allow longitude output outside -180 to 180 range, disables wrapping (see below)'',
    ''+pm        Alternate prime meridian (typically a city name, see below)'',
    ''+proj      Projection name (see `proj -l`)'',
    ''+south     Denotes southern hemisphere UTM zone'',
    ''+to_meter  Multiplier to convert map units to 1.0m'',
    ''+towgs84   3 or 7 term datum transform parameters (see below)'',
    ''+units     meters, US survey feet, etc.'',
    ''+vto_meter vertical conversion to meters.'',
    ''+vunits    vertical units.'',
    ''+x_0       False easting'',
    ''+y_0       False northing'',
    ''+zone      UTM zone'',
    ''+a         Semimajor radius of the ellipsoid axis'',
    ''+alpha     ? Used with Oblique Mercator and possibly a few others'',
    ''+azi'',
    ''+b         Semiminor radius of the ellipsoid axis'',
    ''+belgium'',
    ''+beta'',
    ''+czech'',
    ''+e         Eccentricity of the ellipsoid = sqrt(1 - b^2/a^2) = sqrt( f*(2-f) )'',
    ''+ellps     Ellipsoid name (see `proj -le`)'',
    ''+es        Eccentricity of the ellipsoid squared'',
    ''+f         Flattening of the ellipsoid (often presented as an inverse, e.g. 1/298)'',
    ''+gamma'',
    ''+geoc'',
    ''+guam'',
    ''+h'',
    ''+k         Scaling factor (old name)'',
    ''+K'',
    ''+k_0       Scaling factor (new name)'',
    ''+lat_0     Latitude of origin'',
    ''+lat_1     Latitude of first standard parallel'',
    ''+lat_2     Latitude of second standard parallel'',
    ''+lat_b'',
    ''+lat_t'',
    ''+lat_ts    Latitude of true scale'',
    ''+lon_0     Central meridian'',
    ''+lon_1'',
    ''+lon_2'',
    ''+lonc      ? Longitude used with Oblique Mercator and possibly a few others'',
    ''+lsat'',
    ''+m'',
    ''+M'',
    ''+n'',
    ''+no_cut'',
    ''+no_off'',
    ''+no_rot'',
    ''+ns'',
    ''+o_alpha'',
    ''+o_lat_1'',
    ''+o_lat_2'',
    ''+o_lat_c'',
    ''+o_lat_p'',
    ''+o_lon_1'',
    ''+o_lon_2'',
    ''+o_lon_c'',
    ''+o_lon_p'',
    ''+o_proj'',
    ''+over'',
    ''+p'',
    ''+path'',
    ''+proj      Projection name (see `proj -l`)'',
    ''+q'',
    ''+R'',
    ''+R_a'',
    ''+R_A       Compute radius such that the area of the sphere is the same as the area of the ellipsoid'',
    ''+rf        Reciprocal of the ellipsoid flattening term (e.g. 298)'',
    ''+R_g'',
    ''+R_h'',
    ''+R_lat_a'',
    ''+R_lat_g'',
    ''+rot'',
    ''+R_V'',
    ''+s'',
    ''+south     Denotes southern hemisphere UTM zone'',
    ''+sym'',
    ''+t'',
    ''+theta'',
    ''+tilt'',
    ''+to_meter  Multiplier to convert map units to 1.0m'',
    ''+units     meters, US survey feet, etc.'',
    ''+vopt'',
    ''+W'',
    ''+westo'',
    ''+x_0       False easting'',
    ''+y_0       False northing'',
    ''+zone      UTM zone'',
    '''']"

text \<open>
  \<^verbatim>\<open>line.split()[0]\<close>. No line of the table that is longer than one character is blank,
  so the index is always in range there.
\<close>

definition first_word :: "string \<Rightarrow> string" where
  "first_word line = (case split line of [] \<Rightarrow> [] | w # ws \<Rightarrow> w)"

text \<open>
  \<^verbatim>\<open>list(set(...)) + ['no_mayo']\<close>. The order of a Python set is arbitrary; only
  membership in \<open>all_proj_keys\<close> is ever used.
\<close>

definition all_proj_keys :: "string list" where
  "all_proj_keys =
     remdups (map (\<lambda>line. strip (lstrip (CHR ''+'') (first_word line)))
                  (filter (\<lambda>x. length x > 1) param_data_lines))
     @ [''no_mayo'']"

section \<open>The PROJ4 tokenizer\<close>

text \<open>The local function \<^verbatim>\<open>parse(v)\<close>, which \<^verbatim>\<open>from_string\<close>, \<^verbatim>\<open>from_wkt\<close> and
  \<^verbatim>\<open>to_dict\<close> each define with the same body.\<close>

definition parse :: "(string \<Rightarrow> pyfloat) \<Rightarrow> string \<Rightarrow> pyval" where
  "parse fl v =
     (if v \<in> set [''True'', ''true''] then PBool True
      else if v \<in> set [''False'', ''false''] then PBool False
      else (case int_of_str v of
              Some i \<Rightarrow> PInt i
            | None \<Rightarrow> (case float_of_str fl v of
                         Some r \<Rightarrow> PFloat r
                       | None \<Rightarrow> PStr v)))"

text \<open>
  \<^verbatim>\<open>lambda kv: len(kv) == 2 and (kv[0], parse(kv[1])) or (kv[0], True)\<close>. A tuple is
  never false, so the \<^verbatim>\<open>or\<close> branch is taken exactly when \<^verbatim>\<open>len(kv) != 2\<close>. The
  list \<open>kv\<close> comes from \<^verbatim>\<open>p.split('=')\<close> and is never empty.
\<close>

fun item :: "(string \<Rightarrow> pyfloat) \<Rightarrow> string list \<Rightarrow> string \<times> pyval" where
  "item fl [k, v] = (k, parse fl v)"
| "item fl (k # rest) = (k, PBool True)"
| "item fl [] = ([], PBool True)"

text \<open>
  \<^verbatim>\<open>parts = [o.lstrip('+') for o in s.strip().split()]\<close> and
  \<^verbatim>\<open>items = map(lambda kv: ..., (p.split('=') for p in parts))\<close>.
\<close>

definition parts :: "string \<Rightarrow> string list" where
  "parts s = map (lstrip (CHR ''+'')) (split (strip s))"

definition proj4_items :: "(string \<Rightarrow> pyfloat) \<Rightarrow> string \<Rightarrow> (string \<times> pyval) list" where
  "proj4_items fl s = map (\<lambda>p. item fl (split_on (CHR ''='') p)) (parts s)"

text \<open>
  Building a dictionary from key/value pairs, as \<^verbatim>\<open>dict(pairs)\<close>, a dict comprehension
  and \<^verbatim>\<open>dict.update\<close> do: a key seen again keeps its place and takes the new value.
\<close>

definition dict_of_pairs :: "(string \<times> pyval) list \<Rightarrow> (string \<times> pyval) list" where
  "dict_of_pairs ps = foldl (\<lambda>d (k, v). AList.update k v d) [] ps"

text \<open>\<^verbatim>\<open>(k, v) for k, v in items if k in all_proj_keys\<close>\<close>

definition registered :: "(string \<times> pyval) list \<Rightarrow> (string \<times> pyval) list" where
  "registered items = filter (\<lambda>(k, v). k \<in> set all_proj_keys) items"

section \<open>The CRS object\<close>

text \<open>
  The two attributes of a \<^verbatim>\<open>_CRS\<close> instance: \<open>wkt\<close> is \<^verbatim>\<open>self._wkt\<close> (\<open>None\<close> or a
  string), \<open>data\<close> is \<^verbatim>\<open>self._data\<close>, a dictionary in insertion order with string keys.
\<close>

record crs =
  wkt :: "string option"
  data :: "(string \<times> pyval) list"

text \<open>
  What the module calls but does not define. \<open>json_loads s\<close> is
  \<^verbatim>\<open>json.loads(s, strict=False)\<close> on a text that encodes an object with scalar values:
  the decoded dictionary, or \<open>None\<close> for \<^verbatim>\<open>ValueError\<close>. Texts that decode to anything
  else (a list, a string, an object with nested values) are outside this model.
  \<open>float_repr v\<close> is the \<^verbatim>\<open>repr\<close> of \<^verbatim>\<open>float(v)\<close>. The remaining fields are the calls
  into the OSR C API on a spatial reference of type \<open>'h\<close>. The three calls that the source
  wraps in \<^verbatim>\<open>exc_wrap_int\<close> return \<open>Inl m\<close> when the wrapper raises a
  \<^verbatim>\<open>CPLE_BaseError\<close> whose text is \<open>m\<close>. Encoding to and decoding from UTF-8 never
  fails on ASCII text.
\<close>

record 'h externals =
  json_loads :: "string \<Rightarrow> (string \<times> pyval) list option"
  float_repr :: "string \<Rightarrow> pyfloat"
  OSRSetFromUserInput :: "string \<Rightarrow> string + 'h"
  OSRMorphFromESRI :: "'h \<Rightarrow> string + 'h"
  OSRExportToProj4 :: "'h \<Rightarrow> string + string"
  OSRIsGeographic :: "'h \<Rightarrow> int"
  OSRIsProjected :: "'h \<Rightarrow> int"
  OSRIsSame :: "'h \<Rightarrow> 'h \<Rightarrow> int"

subsection \<open>\<^verbatim>\<open>__init__\<close>\<close>

text \<open>
  The argument \<^verbatim>\<open>initialdata\<close>: a scalar (\<^verbatim>\<open>None\<close> by default), a dictionary with
  string keys, or a generator of key/value pairs, which is how \<^verbatim>\<open>from_string\<close> passes
  the filtered items. A generator object is never false.
\<close>

datatype initdata =
    IVal pyval
  | IDict "(string \<times> pyval) list"
  | IPairs "(string \<times> pyval) list"

fun init_truthy :: "initdata \<Rightarrow> bool" where
  "init_truthy (IVal v) = truthy v"
| "init_truthy (IDict d) = (d \<noteq> [])"
| "init_truthy (IPairs ps) = True"

text \<open>
  \<^verbatim>\<open>dict(initialdata)\<close>. A non-empty string is a sequence of one-character strings, which
  are not pairs (\<^verbatim>\<open>ValueError\<close>); the other scalars are not iterable (\<^verbatim>\<open>TypeError\<close>).
\<close>

fun py_dict :: "initdata \<Rightarrow> pyerror + (string \<times> pyval) list" where
  "py_dict (IDict d) = Inr (dict_of_pairs d)"
| "py_dict (IPairs ps) = Inr (dict_of_pairs ps)"
| "py_dict (IVal (PStr s)) = (if s = [] then Inr [] else Inl ValueError)"
| "py_dict (IVal v) = Inl TypeError"

definition crs_init :: "initdata \<Rightarrow> (string \<times> pyval) list \<Rightarrow> pyerror + crs" where
  "crs_init initialdata kwargs =
     (if init_truthy initialdata then
        (case py_dict initialdata of
           Inl e \<Rightarrow> Inl e
         | Inr d \<Rightarrow> Inr \<lparr>wkt = None, data = d\<rparr>)
      else Inr \<lparr>wkt = None, data = dict_of_pairs kwargs\<rparr>)"

text \<open>
  The call \<^verbatim>\<open>cls(**val)\<close> for a dictionary \<open>val\<close> with string keys. The keyword
  \<^verbatim>\<open>self\<close> collides with the bound first argument (\<^verbatim>\<open>TypeError\<close>); the keyword
  \<^verbatim>\<open>initialdata\<close> binds the parameter of that name; every other keyword lands in
  \<^verbatim>\<open>kwargs\<close>.
\<close>

definition call_kwargs :: "(string \<times> pyval) list \<Rightarrow> pyerror + crs" where
  "call_kwargs val =
     (if ''self'' \<in> fst ` set val then Inl TypeError
      else (case map_of val ''initialdata'' of
              Some v \<Rightarrow> crs_init (IVal v) (filter (\<lambda>(k, x). k \<noteq> ''initialdata'') val)
            | None \<Rightarrow> crs_init (IVal PNone) val))"

subsection \<open>\<^verbatim>\<open>__len__\<close>, truth value, \<^verbatim>\<open>_wkt_or_proj\<close>\<close>

definition crs_len :: "crs \<Rightarrow> nat" where
  "crs_len c = length (data c)"

text \<open>The class defines no \<^verbatim>\<open>__bool__\<close>: the truth value of a CRS is \<^verbatim>\<open>len(self) != 0\<close>.\<close>

definition crs_bool :: "crs \<Rightarrow> bool" where
  "crs_bool c = (crs_len c \<noteq> 0)"

definition proj_tokens :: "crs \<Rightarrow> string list" where
  "proj_tokens c = map (\<lambda>(key, val). ''+'' @ key @ ''='' @ py_str val) (data c)"

text \<open>\<^verbatim>\<open>self._wkt or ' '.join([...])\<close>: an empty cached text is false, like \<^verbatim>\<open>None\<close>.\<close>

definition wkt_or_proj :: "crs \<Rightarrow> string" where
  "wkt_or_proj c =
     (case wkt c of
        Some w \<Rightarrow> if w \<noteq> [] then w else join '' '' (proj_tokens c)
      | None \<Rightarrow> join '' '' (proj_tokens c))"

subsection \<open>\<^verbatim>\<open>is_geographic\<close>, \<^verbatim>\<open>is_projected\<close>\<close>


text \<open>\<^verbatim>\<open>is_projected\<close> has \<^verbatim>\<open>try ... finally\<close> without an \<^verbatim>\<open>except\<close> clause.\<close>

definition is_projected :: "'h externals \<Rightarrow> crs \<Rightarrow> pyerror + bool" where
  "is_projected ext c =
     (case OSRSetFromUserInput ext (wkt_or_proj c) of
        Inl m \<Rightarrow> Inl (CPLE_BaseError m)
      | Inr h \<Rightarrow>
          (case OSRMorphFromESRI ext h of
             Inl m \<Rightarrow> Inl (CPLE_BaseError m)
           | Inr h' \<Rightarrow> Inr (OSRIsProjected ext h' = 1)))"

subsection \<open>\<^verbatim>\<open>__eq__\<close>\<close>

text \<open>
  Modelled from the spec: \<^verbatim>\<open>osr_from_crs\<close> is imported from \<^verbatim>\<open>rasterio._base\<close>, whose
  source is missing here. The specification has it ask the engine to interpret the
  canonical string form of the CRS into a handle, and has every engine failure re-raised
  as the domain error with the underlying message.
\<close>

definition osr_from_crs :: "'h externals \<Rightarrow> crs \<Rightarrow> pyerror + 'h" where
  "osr_from_crs ext c =
     (case OSRSetFromUserInput ext (wkt_or_proj c) of
        Inl m \<Rightarrow> Inl (CRSError m)
      | Inr h \<Rightarrow> Inr h)"

definition crs_eq :: "'h externals \<Rightarrow> crs \<Rightarrow> crs \<Rightarrow> pyerror + bool" where
  "crs_eq ext self other =
     (if \<not> crs_bool self \<or> \<not> crs_bool other then
        Inr (\<not> crs_bool self \<and> \<not> crs_bool other)
      else
        (case osr_from_crs ext self of
           Inl e \<Rightarrow> Inl e
         | Inr osr_crs1 \<Rightarrow>
             (case osr_from_crs ext other of
                Inl e \<Rightarrow> Inl e
              | Inr osr_crs2 \<Rightarrow> Inr (OSRIsSame ext osr_crs1 osr_crs2 = 1))))"

subsection \<open>\<^verbatim>\<open>from_epsg\<close>\<close>

text \<open>
  The docstring has \<^verbatim>\<open>code : int or str\<close>; a Python \<^verbatim>\<open>bool\<close> is an \<^verbatim>\<open>int\<close> as well.
\<close>

datatype epsg_code = CodeInt int | CodeBool bool | CodeStr string

fun code_val :: "epsg_code \<Rightarrow> pyval" where
  "code_val (CodeInt i) = PInt i"
| "code_val (CodeBool b) = PBool b"
| "code_val (CodeStr s) = PStr s"

text \<open>\<^verbatim>\<open>int(code)\<close>\<close>

fun int_of_code :: "epsg_code \<Rightarrow> pyerror + int" where
  "int_of_code (CodeInt i) = Inr i"
| "int_of_code (CodeBool b) = Inr (if b then 1 else 0)"
| "int_of_code (CodeStr s) = (case int_of_str s of None \<Rightarrow> Inl ValueError | Some i \<Rightarrow> Inr i)"

definition from_epsg :: "epsg_code \<Rightarrow> pyerror + crs" where
  "from_epsg code =
     (case int_of_code code of
        Inl e \<Rightarrow> Inl e
      | Inr n \<Rightarrow>
          if n \<le> 0 then Inl (CRSError ''EPSG codes are positive integers'')
          else crs_init (IVal PNone)
                 [(''init'', PStr (''epsg:'' @ py_str (code_val code))),
                  (''no_defs'', PBool True)])"

subsection \<open>\<^verbatim>\<open>from_wkt\<close> and \<^verbatim>\<open>to_dict\<close>\<close>

text \<open>
  The three wrapped engine calls that \<^verbatim>\<open>from_wkt\<close> and \<^verbatim>\<open>to_dict\<close> make in a row:
  \<^verbatim>\<open>OSRSetFromUserInput\<close>, \<^verbatim>\<open>OSRMorphFromESRI\<close>, \<^verbatim>\<open>OSRExportToProj4\<close>.
\<close>

definition export_proj4 :: "'h externals \<Rightarrow> string \<Rightarrow> string + string" where
  "export_proj4 ext text =
     (case OSRSetFromUserInput ext text of
        Inl m \<Rightarrow> Inl m
      | Inr h \<Rightarrow>
          (case OSRMorphFromESRI ext h of
             Inl m \<Rightarrow> Inl m
           | Inr h' \<Rightarrow> OSRExportToProj4 ext h'))"

text \<open>\<^verbatim>\<open>{k: v for k, v in items if k in all_proj_keys}\<close> on the engine's PROJ4 text.\<close>

definition proj4_dict :: "'h externals \<Rightarrow> string \<Rightarrow> (string \<times> pyval) list" where
  "proj4_dict ext proj_str = dict_of_pairs (registered (proj4_items (float_repr ext) proj_str))"

definition from_wkt :: "'h externals \<Rightarrow> pyval \<Rightarrow> pyerror + crs" where
  "from_wkt ext v =
     (case v of
        PStr text \<Rightarrow>
          (case export_proj4 ext text of
             Inl m \<Rightarrow> Inl (CRSError (''The WKT could not be parsed. '' @ m))
           | Inr proj_str \<Rightarrow> Inr \<lparr>wkt = Some text, data = proj4_dict ext proj_str\<rparr>)
      | _ \<Rightarrow> Inl ValueError)"

definition to_dict :: "'h externals \<Rightarrow> crs \<Rightarrow> pyerror + (string \<times> pyval) list" where
  "to_dict ext c =
     (if data c \<noteq> [] then Inr (data c)
      else
        (case wkt c of
           None \<Rightarrow> Inl AttributeError
         | Some text \<Rightarrow>
             (case export_proj4 ext text of
                Inl m \<Rightarrow> Inl (CRSError (''The WKT could not be parsed. '' @ m))
              | Inr proj_str \<Rightarrow> Inr (proj4_dict ext proj_str))))"

subsection \<open>\<^verbatim>\<open>from_string\<close> and \<^verbatim>\<open>from_user_input\<close>\<close>

definition from_string :: "'h externals \<Rightarrow> string \<Rightarrow> pyerror + crs" where
  "from_string ext s =
     (if s = [] then Inl (CRSError (''CRS is empty or invalid: '' @ str_repr s))
      else if startswith (upper (strip s)) ''EPSG:'' then
        (case split_on (CHR '':'') (strip s) of
           [auth, val] \<Rightarrow>
             if val = [] then Inl (CRSError (''Invalid CRS: '' @ str_repr s))
             else from_epsg (CodeStr val)
         | _ \<Rightarrow> Inl ValueError)
      else if CHR ''{'' \<in> set s then
        (case json_loads ext s of
           None \<Rightarrow> Inl (CRSError ''CRS appears to be JSON but is not valid'')
         | Some val \<Rightarrow>
             if val = [] then Inl (CRSError ''CRS is empty JSON'')
             else call_kwargs val)
      else if CHR ''+'' \<in> set s \<and> CHR ''='' \<in> set s then
        (case crs_init (IPairs (registered (proj4_items (float_repr ext) s))) [] of
           Inl e \<Rightarrow> Inl e
         | Inr out \<Rightarrow>
             if \<not> crs_bool out then Inl (CRSError (''CRS is empty or invalid: '' @ s))
             else Inr out)
      else from_wkt ext (PStr s))"

text \<open>
  The values \<^verbatim>\<open>from_user_input\<close> tells apart: a CRS, a dictionary with string keys, or
  a scalar.
\<close>

datatype user_input = UCRS crs | UDict "(string \<times> pyval) list" | UVal pyval

fun from_user_input :: "'h externals \<Rightarrow> user_input \<Rightarrow> pyerror + crs" where
  "from_user_input ext (UCRS c) = Inr c"
| "from_user_input ext (UVal (PInt i)) = from_epsg (CodeInt i)"
| "from_user_input ext (UVal (PBool b)) = from_epsg (CodeBool b)"
| "from_user_input ext (UDict d) = call_kwargs d"
| "from_user_input ext (UVal (PStr s)) = from_string ext s"
| "from_user_input ext (UVal v) = Inl (CRSError (''CRS is invalid: '' @ py_repr v))"

section \<open>The tokenizer as the specification words it\<close>

text \<open>
  For comparison with \<open>proj4_items\<close>: strip one leading plus sign from each token, split
  it once at the first equals sign, and coerce the raw value with \<open>parse\<close>.
\<close>

definition worded_item :: "(string \<Rightarrow> pyfloat) \<Rightarrow> string \<Rightarrow> string \<times> pyval" where
  "worded_item fl token =
     (let t = (case token of [] \<Rightarrow> [] | c # cs \<Rightarrow> if c = CHR ''+'' then cs else c # cs)
      in if CHR ''='' \<in> set t
         then (takeWhile (\<lambda>c. c \<noteq> CHR ''='') t,
               parse fl (drop 1 (dropWhile (\<lambda>c. c \<noteq> CHR ''='') t)))
         else (t, PBool True))"

definition worded_items :: "(string \<Rightarrow> pyfloat) \<Rightarrow> string \<Rightarrow> (string \<times> pyval) list" where
  "worded_items fl s = map (worded_item fl) (split s)"

section \<open>A test double for the externals\<close>

text \<open>
  A small stand-in for the JSON decoder and the engine, used to run the definitions on
  concrete inputs. The decoder knows the listed documents and gives for each what
  \<^verbatim>\<open>json.loads\<close> gives; every other text it reports as invalid. The engine knows
  WGS 84 under three spellings, reports an error for every other text, and exports the
  PROJ4 text GDAL prints for WGS 84. The only float among the samples is \<^verbatim>\<open>1.5\<close>,
  which is its own \<^verbatim>\<open>repr\<close>.
\<close>

definition sample_loads :: "string \<Rightarrow> (string \<times> pyval) list option" where
  \<open>sample_loads s =
     (if s = ''{}'' then Some []
      else if s = ''{"proj": "longlat", "bogus_key": 5}''
        then Some [(''proj'', PStr ''longlat''), (''bogus_key'', PInt 5)]
      else if s = ''{"self": 1}'' then Some [(''self'', PInt 1)]
      else if s = ''{"initialdata": 0, "proj": "longlat"}''
        then Some [(''initialdata'', PInt 0), (''proj'', PStr ''longlat'')]
      else None)\<close>

definition sample_set_from_user_input :: "string \<Rightarrow> string + string" where
  "sample_set_from_user_input text =
     (if text \<in> set [''WGS84'',
                      ''+proj=longlat +datum=WGS84 +no_defs=True'',
                      ''+init=epsg:4326 +no_defs=True'']
      then Inr ''WGS 84''
      else Inl ''OGR Error'')"

definition sample_ext :: "string externals" where
  "sample_ext =
     \<lparr>json_loads = sample_loads,
      float_repr = (\<lambda>v. v),
      OSRSetFromUserInput = sample_set_from_user_input,
      OSRMorphFromESRI = (\<lambda>h. Inr h),
      OSRExportToProj4 = (\<lambda>h. Inr ''+proj=longlat +datum=WGS84 +no_defs ''),
      OSRIsGeographic = (\<lambda>h. 1),
      OSRIsProjected = (\<lambda>h. 0),
      OSRIsSame = (\<lambda>h1 h2. if h1 = h2 then 1 else 0)\<rparr>"

section \<open>The cases of the string classifier\<close>

text \<open>
  The conditions under which \<open>from_string\<close> takes its second, third and fourth branch, in
  the order in which it tests them.
\<close>

definition is_epsg_string :: "string \<Rightarrow> bool" where
  "is_epsg_string s = startswith (upper (strip s)) ''EPSG:''"

definition is_json_string :: "string \<Rightarrow> bool" where
  "is_json_string s = (\<not> is_epsg_string s \<and> CHR ''{'' \<in> set s)"

definition is_proj4_string :: "string \<Rightarrow> bool" where
  "is_proj4_string s =
     (\<not> is_epsg_string s \<and> CHR ''{'' \<notin> set s \<and> CHR ''+'' \<in> set s \<and> CHR ''='' \<in> set s)"

text \<open>A key without whitespace, equals sign or plus sign, as every key of the registry is.\<close>

definition plain_key :: "string \<Rightarrow> bool" where
  "plain_key k = (\<forall>c \<in> set k. \<not> is_space c \<and> c \<noteq> CHR ''='' \<and> c \<noteq> CHR ''+'')"

section \<open>Auxiliary facts\<close>

subsection \<open>The registry, evaluated\<close>

lemma all_proj_keys_eq:
  "all_proj_keys =
    [''axis'', ''datum'', ''init'', ''lon_wrap'', ''nadgrids'', ''no_defs'', ''pm'',
     ''towgs84'', ''vto_meter'', ''vunits'', ''a'', ''alpha'', ''azi'', ''b'',
     ''belgium'', ''beta'', ''czech'', ''e'', ''ellps'', ''es'', ''f'', ''gamma'',
     ''geoc'', ''guam'', ''h'', ''k'', ''K'', ''k_0'', ''lat_0'', ''lat_1'', ''lat_2'',
     ''lat_b'', ''lat_t'', ''lat_ts'', ''lon_0'', ''lon_1'', ''lon_2'', ''lonc'',
     ''lsat'', ''m'', ''M'', ''n'', ''no_cut'', ''no_off'', ''no_rot'', ''ns'',
     ''o_alpha'', ''o_lat_1'', ''o_lat_2'', ''o_lat_c'', ''o_lat_p'', ''o_lon_1'',
     ''o_lon_2'', ''o_lon_c'', ''o_lon_p'', ''o_proj'', ''over'', ''p'', ''path'',
     ''proj'', ''q'', ''R'', ''R_a'', ''R_A'', ''rf'', ''R_g'', ''R_h'', ''R_lat_a'',
     ''R_lat_g'', ''rot'', ''R_V'', ''s'', ''south'', ''sym'', ''t'', ''theta'',
     ''tilt'', ''to_meter'', ''units'', ''vopt'', ''W'', ''westo'', ''x_0'', ''y_0'',
     ''zone'', ''no_mayo'']"
  by code_simp

declare all_proj_keys_eq [code]

lemma init_no_defs_registered: "''init'' \<in> set all_proj_keys" "''no_defs'' \<in> set all_proj_keys"
  by (simp_all add: all_proj_keys_eq)

subsection \<open>Dictionaries, splitting and stripping\<close>

lemma foldl_update_keys:
  "fst ` set (foldl (\<lambda>d (k, v). AList.update k v d) d ps) = fst ` set d \<union> fst ` set ps"
proof (induction ps arbitrary: d)
  case Nil
  then show ?case by simp
next
  case (Cons p ps)
  obtain k v where p: "p = (k, v)" by (cases p)
  have "fst ` set (AList.update k v d) = insert k (fst ` set d)"
    by (simp add: AList.dom_update)
  with Cons.IH [of "AList.update k v d"] show ?case
    by (simp add: p)
qed

lemma dict_of_pairs_keys: "fst ` set (dict_of_pairs ps) = fst ` set ps"
  by (simp add: dict_of_pairs_def foldl_update_keys)

lemma update_fresh: "k \<notin> fst ` set d \<Longrightarrow> AList.update k v d = d @ [(k, v)]"
  by (induction d) auto

lemma foldl_update_distinct:
  "distinct (map fst (d @ ps)) \<Longrightarrow> foldl (\<lambda>d (k, v). AList.update k v d) d ps = d @ ps"
proof (induction ps arbitrary: d)
  case Nil
  then show ?case by simp
next
  case (Cons p ps)
  obtain k v where p: "p = (k, v)" by (cases p)
  from Cons.prems have fresh: "k \<notin> fst ` set d" by (auto simp: p)
  from Cons.prems have "distinct (map fst ((d @ [(k, v)]) @ ps))" by (simp add: p)
  from Cons.IH [OF this] show ?case by (simp add: p update_fresh [OF fresh])
qed

lemma dict_of_pairs_distinct: "distinct (map fst ps) \<Longrightarrow> dict_of_pairs ps = ps"
  using foldl_update_distinct [of "[]" ps] by (simp add: dict_of_pairs_def)

lemma foldl_update_nonempty:
  "d \<noteq> [] \<or> ps \<noteq> [] \<Longrightarrow> foldl (\<lambda>d (k, v). AList.update k v d) d ps \<noteq> []"
proof (induction ps arbitrary: d)
  case Nil
  then show ?case by simp
next
  case (Cons p ps)
  obtain k v where p: "p = (k, v)" by (cases p)
  have "AList.update k v d \<noteq> []" by (cases d) auto
  then show ?case using Cons.IH [of "AList.update k v d"] by (simp add: p)
qed

lemma dict_of_pairs_empty: "dict_of_pairs ps = [] \<longleftrightarrow> ps = []"
  using foldl_update_nonempty [of "[]" ps] by (auto simp: dict_of_pairs_def)

lemma registered_keys: "fst ` set (registered items) \<subseteq> set all_proj_keys"
  by (auto simp: registered_def)

lemma registered_keys_eq:
  "fst ` set (registered items) = {k \<in> fst ` set items. k \<in> set all_proj_keys}"
  by (force simp: registered_def)

lemma split_sep_none: "sep \<notin> set t \<Longrightarrow> split_sep sep cur t = [cur @ t]"
  by (induction t arbitrary: cur) auto

lemma split_sep_first:
  "sep \<notin> set k \<Longrightarrow> split_sep sep cur (k @ sep # v) = (cur @ k) # split_sep sep [] v"
  by (induction k arbitrary: cur) auto

lemma split_sep_nonempty: "split_sep sep cur v \<noteq> []"
  by (induction v arbitrary: cur) auto

lemma split_sep_length: "sep \<in> set v \<Longrightarrow> 2 \<le> length (split_sep sep cur v)"
proof (induction v arbitrary: cur)
  case Nil
  then show ?case by simp
next
  case (Cons c cs)
  show ?case
  proof (cases "c = sep")
    case True
    have "1 \<le> length (split_sep sep [] cs)"
      using split_sep_nonempty [of sep "[]" cs] by (cases "split_sep sep [] cs") auto
    with True show ?thesis by simp
  next
    case False
    with Cons show ?thesis by simp
  qed
qed

lemma split_on_flag: "CHR ''='' \<notin> set t \<Longrightarrow> item fl (split_on (CHR ''='') t) = (t, PBool True)"
  by (simp add: split_on_def split_sep_none)

lemma split_on_pair:
  "CHR ''='' \<notin> set k \<Longrightarrow> CHR ''='' \<notin> set v \<Longrightarrow>
   item fl (split_on (CHR ''='') (k @ CHR ''='' # v)) = (k, parse fl v)"
  by (simp add: split_on_def split_sep_first split_sep_none)

lemma item_long: "2 \<le> length rest \<Longrightarrow> item fl (k # rest) = (k, PBool True)"
proof -
  assume "2 \<le> length rest"
  then obtain a b as where "rest = a # b # as"
    by (cases rest; cases "tl rest") auto
  then show ?thesis by simp
qed

lemma split_on_many:
  "CHR ''='' \<notin> set k \<Longrightarrow> CHR ''='' \<in> set v \<Longrightarrow>
   item fl (split_on (CHR ''='') (k @ CHR ''='' # v)) = (k, PBool True)"
  by (simp add: split_on_def split_sep_first item_long split_sep_length)

lemma lstrip_plus_run:
  "(t = [] \<or> hd t \<noteq> CHR ''+'') \<Longrightarrow> lstrip (CHR ''+'') (replicate n (CHR ''+'') @ t) = t"
  by (induction n) (auto simp: lstrip_def dropWhile_eq_self_iff)

subsection \<open>The constructors, case by case\<close>

lemma crs_init_default: "crs_init (IVal PNone) kwargs = Inr \<lparr>wkt = None, data = dict_of_pairs kwargs\<rparr>"
  by (simp add: crs_init_def)

lemma crs_init_pairs: "crs_init (IPairs ps) kwargs = Inr \<lparr>wkt = None, data = dict_of_pairs ps\<rparr>"
  by (simp add: crs_init_def)

lemma from_string_proj4_branch:
  "is_proj4_string s \<Longrightarrow>
   from_string ext s =
     (if registered (proj4_items (float_repr ext) s) = []
      then Inl (CRSError (''CRS is empty or invalid: '' @ s))
      else Inr \<lparr>wkt = None, data = dict_of_pairs (registered (proj4_items (float_repr ext) s))\<rparr>)"
proof -
  assume a: "is_proj4_string s"
  then have "s \<noteq> []" by (auto simp: is_proj4_string_def)
  with a show ?thesis
    by (simp add: from_string_def is_proj4_string_def is_epsg_string_def crs_init_pairs
        crs_bool_def crs_len_def dict_of_pairs_empty)
qed

lemma crs_init_dict:
  "crs_init (IDict d) kwargs =
     Inr \<lparr>wkt = None, data = dict_of_pairs (if d \<noteq> [] then d else kwargs)\<rparr>"
  by (simp add: crs_init_def)

lemma call_kwargs_plain:
  "''self'' \<notin> fst ` set d \<Longrightarrow> ''initialdata'' \<notin> fst ` set d \<Longrightarrow>
   call_kwargs d = Inr \<lparr>wkt = None, data = dict_of_pairs d\<rparr>"
proof -
  assume "''self'' \<notin> fst ` set d" and i: "''initialdata'' \<notin> fst ` set d"
  moreover from i have "map_of d ''initialdata'' = None"
    by (simp add: map_of_eq_None_iff)
  ultimately show ?thesis by (simp add: call_kwargs_def crs_init_default)
qed

lemma is_epsg_string_nonempty: "is_epsg_string s \<Longrightarrow> s \<noteq> []"
  by (auto simp: is_epsg_string_def startswith_def strip_def upper_def)

lemma from_string_epsg_branch:
  "is_epsg_string s \<Longrightarrow>
   from_string ext s =
     (case split_on (CHR '':'') (strip s) of
        [auth, val] \<Rightarrow>
          if val = [] then Inl (CRSError (''Invalid CRS: '' @ str_repr s))
          else from_epsg (CodeStr val)
      | _ \<Rightarrow> Inl ValueError)"
  using is_epsg_string_nonempty [of s] by (simp add: from_string_def is_epsg_string_def)

lemma from_string_json_branch:
  "is_json_string s \<Longrightarrow>
   from_string ext s =
     (case json_loads ext s of
        None \<Rightarrow> Inl (CRSError ''CRS appears to be JSON but is not valid'')
      | Some val \<Rightarrow>
          if val = [] then Inl (CRSError ''CRS is empty JSON'') else call_kwargs val)"
proof -
  assume a: "is_json_string s"
  then have "s \<noteq> []" by (auto simp: is_json_string_def)
  with a show ?thesis by (simp add: from_string_def is_json_string_def is_epsg_string_def)
qed

lemma from_string_wkt_branch:
  "s \<noteq> [] \<Longrightarrow> \<not> is_epsg_string s \<Longrightarrow> \<not> is_json_string s \<Longrightarrow> \<not> is_proj4_string s \<Longrightarrow>
   from_string ext s = from_wkt ext (PStr s)"
  by (auto simp: from_string_def is_json_string_def is_epsg_string_def is_proj4_string_def)

lemma from_wkt_string:
  "from_wkt ext (PStr text) =
     (case export_proj4 ext text of
        Inl m \<Rightarrow> Inl (CRSError (''The WKT could not be parsed. '' @ m))
      | Inr proj_str \<Rightarrow> Inr \<lparr>wkt = Some text, data = proj4_dict ext proj_str\<rparr>)"
  by (simp add: from_wkt_def)

lemma proj4_dict_keys: "fst ` set (proj4_dict ext p) \<subseteq> set all_proj_keys"
  by (simp add: proj4_dict_def dict_of_pairs_keys registered_keys)

lemma from_wkt_keys: "from_wkt ext v = Inr c \<Longrightarrow> fst ` set (data c) \<subseteq> set all_proj_keys"
proof (cases v)
  case (PStr w)
  assume "from_wkt ext v = Inr c"
  with PStr obtain p where "data c = proj4_dict ext p"
    by (auto simp: from_wkt_string split: sum.splits)
  then show ?thesis by (simp only: proj4_dict_keys)
qed (simp_all add: from_wkt_def)

lemma from_epsg_result:
  "from_epsg code = Inr c \<Longrightarrow>
   c = \<lparr>wkt = None,
        data = [(''init'', PStr (''epsg:'' @ py_str (code_val code))), (''no_defs'', PBool True)]\<rparr>"
  by (auto simp: from_epsg_def crs_init_default dict_of_pairs_def split: sum.splits if_splits)

lemma from_epsg_keys: "from_epsg code = Inr c \<Longrightarrow> fst ` set (data c) \<subseteq> set all_proj_keys"
  using from_epsg_result [of code c] by (auto simp: init_no_defs_registered)

lemma from_string_keys:
  assumes "\<not> is_json_string s" and "from_string ext s = Inr c"
  shows "fst ` set (data c) \<subseteq> set all_proj_keys"
proof (cases "s = []")
  case True
  with assms show ?thesis by (simp add: from_string_def)
next
  case ne: False
  show ?thesis
  proof (cases "is_epsg_string s")
    case True
    with assms(2) obtain val where "from_epsg (CodeStr val) = Inr c"
      by (auto simp: from_string_epsg_branch split: list.splits if_splits)
    then show ?thesis by (rule from_epsg_keys)
  next
    case ep: False
    show ?thesis
    proof (cases "is_proj4_string s")
      case True
      with assms(2) have "data c = dict_of_pairs (registered (proj4_items (float_repr ext) s))"
        by (auto simp: from_string_proj4_branch split: if_splits)
      then show ?thesis by (simp only: dict_of_pairs_keys registered_keys)
    next
      case False
      with ne ep assms have "from_wkt ext (PStr s) = Inr c"
        by (simp add: from_string_wkt_branch)
      then show ?thesis by (rule from_wkt_keys)
    qed
  qed
qed







subsection \<open>Joining and splitting tokens\<close>

lemma split_ws_leading: "split_ws [] (dropWhile is_space s) = split_ws [] s"
  by (induction s) auto

lemma split_ws_spaces:
  "\<forall>c \<in> set w. is_space c \<Longrightarrow> split_ws cur w = (if cur = [] then [] else [cur])"
  by (induction w arbitrary: cur) auto

lemma split_ws_trailing:
  "\<forall>c \<in> set w. is_space c \<Longrightarrow> split_ws cur (a @ w) = split_ws cur a"
  by (induction a arbitrary: cur) (auto simp: split_ws_spaces)

lemma split_strip: "split (strip s) = split s"
proof -
  define u where "u = dropWhile is_space s"
  have "rev (takeWhile is_space (rev u) @ dropWhile is_space (rev u)) = rev (rev u)"
    by (simp only: takeWhile_dropWhile_id)
  then have u: "u = rev (dropWhile is_space (rev u)) @ rev (takeWhile is_space (rev u))"
    by (simp only: rev_append rev_rev_ident)
  have "\<forall>c \<in> set (rev (takeWhile is_space (rev u))). is_space c"
    by (auto dest: set_takeWhileD)
  then have "split_ws [] (rev (dropWhile is_space (rev u)) @ rev (takeWhile is_space (rev u)))
      = split_ws [] (rev (dropWhile is_space (rev u)))"
    by (rule split_ws_trailing)
  with u have "split_ws [] (rev (dropWhile is_space (rev u))) = split_ws [] u" by simp
  then show ?thesis by (simp add: split_def strip_def u_def split_ws_leading)
qed



lemma proj4_items_tokens:
  "proj4_items fl s =
     map (\<lambda>token. item fl (split_on (CHR ''='') (lstrip (CHR ''+'') token))) (split s)"
  by (simp add: proj4_items_def parts_def split_strip comp_def)





lemma registry_keys_plain: "\<forall>k \<in> set all_proj_keys. plain_key k"
  by code_simp


subsection \<open>Failures that keep another class\<close>

text \<open>
  Two places where an error leaves the module as it arose: \<^verbatim>\<open>is_projected\<close> has no
  \<^verbatim>\<open>except\<close> clause, and \<^verbatim>\<open>from_epsg\<close> calls \<^verbatim>\<open>int(code)\<close> unguarded.
\<close>

lemma is_projected_failure: "is_projected ext c = Inl e \<Longrightarrow> \<exists>m. e = CPLE_BaseError m"
  by (auto simp: is_projected_def split: sum.splits)

lemma from_string_epsg_not_integer: "from_string ext ''EPSG:abc'' = Inl ValueError"
  by code_simp

section \<open>The claims\<close>

text \<open>
  C1, as stated, fails. With an engine that accepts the text \<^verbatim>\<open>WGS84\<close> and exports
  \<^verbatim>\<open>+proj=longlat +datum=WGS84 +no_defs\<close> for it, \<^verbatim>\<open>from_wkt("WGS84")\<close> returns a CRS
  that keeps the text verbatim and whose parameters are not empty: \<^verbatim>\<open>from_wkt\<close>
  assigns \<^verbatim>\<open>obj._data\<close> before it returns.
\<close>

theorem from_wkt_stores_parameters:
  "from_wkt sample_ext (PStr ''WGS84'') =
     Inr \<lparr>wkt = Some ''WGS84'',
          data = [(''proj'', PStr ''longlat''), (''datum'', PStr ''WGS84''),
                  (''no_defs'', PBool True)]\<rparr>"
  by code_simp

text \<open>
  C1, amended. When the engine interprets the text, normalizes it and exports a PROJ4
  string for it, \<^verbatim>\<open>from_wkt(text)\<close> returns a CRS whose cached WKT is the input text
  verbatim and whose parameters are stored at construction time: they are the tokens of
  the exported PROJ4 string, coerced and filtered to the registry. Conversely every CRS
  that \<^verbatim>\<open>from_wkt\<close> returns for a string has this shape, and its parameters are empty
  exactly when no token of the export has a registered key.
\<close>

theorem from_wkt_result:
  "(export_proj4 ext w = Inr proj_str \<longrightarrow>
      from_wkt ext (PStr w) =
        Inr \<lparr>wkt = Some w,
             data = dict_of_pairs (registered (proj4_items (float_repr ext) proj_str))\<rparr>)
   \<and> (from_wkt ext (PStr w') = Inr c \<longrightarrow>
        wkt c = Some w'
        \<and> (\<exists>p. export_proj4 ext w' = Inr p
               \<and> data c = dict_of_pairs (registered (proj4_items (float_repr ext) p))
               \<and> (data c = [] \<longleftrightarrow> registered (proj4_items (float_repr ext) p) = [])))"
  by (auto simp: from_wkt_string proj4_dict_def dict_of_pairs_empty split: sum.splits)

text \<open>
  The amended C1 at the text \<^verbatim>\<open>WGS84\<close> with the test double as engine.
\<close>

theorem from_wkt_result_witness:
  "export_proj4 sample_ext ''WGS84'' = Inr ''+proj=longlat +datum=WGS84 +no_defs ''
   \<and> from_wkt sample_ext (PStr ''WGS84'') =
       Inr \<lparr>wkt = Some ''WGS84'',
            data = dict_of_pairs (registered (proj4_items (float_repr sample_ext)
                     ''+proj=longlat +datum=WGS84 +no_defs ''))\<rparr>
   \<and> dict_of_pairs (registered (proj4_items (float_repr sample_ext)
         ''+proj=longlat +datum=WGS84 +no_defs '')) =
       [(''proj'', PStr ''longlat''), (''datum'', PStr ''WGS84''), (''no_defs'', PBool True)]"
proof -
  have h: "export_proj4 sample_ext ''WGS84'' = Inr ''+proj=longlat +datum=WGS84 +no_defs ''"
    by code_simp
  have e: "dict_of_pairs (registered (proj4_items (float_repr sample_ext)
         ''+proj=longlat +datum=WGS84 +no_defs '')) =
       [(''proj'', PStr ''longlat''), (''datum'', PStr ''WGS84''), (''no_defs'', PBool True)]"
    by code_simp
  from from_wkt_result [of sample_ext "''WGS84''" "''+proj=longlat +datum=WGS84 +no_defs ''"] h
  have "from_wkt sample_ext (PStr ''WGS84'') =
       Inr \<lparr>wkt = Some ''WGS84'',
            data = dict_of_pairs (registered (proj4_items (float_repr sample_ext)
                     ''+proj=longlat +datum=WGS84 +no_defs ''))\<rparr>"
    by blast
  with h e show ?thesis by blast
qed

text \<open>
  C2, as stated, fails. The key \<^verbatim>\<open>bogus_key\<close> is not in the registry, and it is stored by
  the direct mapping constructor, by \<^verbatim>\<open>from_user_input\<close> on a mapping, and by the JSON
  branch of \<^verbatim>\<open>from_string\<close>.
\<close>

theorem init_keeps_unregistered_key:
  \<open>''bogus_key'' \<notin> set all_proj_keys
   \<and> crs_init (IDict [(''bogus_key'', PInt 5)]) [] =
       Inr \<lparr>wkt = None, data = [(''bogus_key'', PInt 5)]\<rparr>
   \<and> from_user_input sample_ext (UDict [(''bogus_key'', PInt 5)]) =
       Inr \<lparr>wkt = None, data = [(''bogus_key'', PInt 5)]\<rparr>
   \<and> from_string sample_ext ''{"proj": "longlat", "bogus_key": 5}'' =
       Inr \<lparr>wkt = None, data = [(''proj'', PStr ''longlat''), (''bogus_key'', PInt 5)]\<rparr>\<close>
proof -
  have a: "''bogus_key'' \<notin> set all_proj_keys" by (simp add: all_proj_keys_eq)
  have b: "crs_init (IDict [(''bogus_key'', PInt 5)]) [] =
       Inr \<lparr>wkt = None, data = [(''bogus_key'', PInt 5)]\<rparr>" by code_simp
  have c: "from_user_input sample_ext (UDict [(''bogus_key'', PInt 5)]) =
       Inr \<lparr>wkt = None, data = [(''bogus_key'', PInt 5)]\<rparr>" by code_simp
  have d: \<open>from_string sample_ext ''{"proj": "longlat", "bogus_key": 5}'' =
       Inr \<lparr>wkt = None, data = [(''proj'', PStr ''longlat''), (''bogus_key'', PInt 5)]\<rparr>\<close>
    by code_simp
  from a b c d show ?thesis by blast
qed

text \<open>
  C2, amended. Every key stored is in the registry for a CRS built by \<^verbatim>\<open>from_epsg\<close>, by
  \<^verbatim>\<open>from_wkt\<close>, by \<^verbatim>\<open>from_string\<close> on a string that does not take the JSON branch, and by
  \<^verbatim>\<open>from_user_input\<close> on an integer or on such a string. The direct mapping constructor
  stores exactly the keys it is given, from a mapping or from keyword arguments, without
  consulting the registry.
\<close>

theorem registry_keys_where_filtered:
  "(from_epsg code = Inr c1 \<longrightarrow> fst ` set (data c1) \<subseteq> set all_proj_keys)
   \<and> (from_wkt ext v = Inr c2 \<longrightarrow> fst ` set (data c2) \<subseteq> set all_proj_keys)
   \<and> (\<not> is_json_string s \<and> from_string ext s = Inr c3 \<longrightarrow>
        fst ` set (data c3) \<subseteq> set all_proj_keys)
   \<and> (from_user_input ext (UVal (PInt i)) = Inr c4 \<longrightarrow>
        fst ` set (data c4) \<subseteq> set all_proj_keys)
   \<and> (\<not> is_json_string t \<and> from_user_input ext (UVal (PStr t)) = Inr c5 \<longrightarrow>
        fst ` set (data c5) \<subseteq> set all_proj_keys)
   \<and> (crs_init (IDict d) [] = Inr c6 \<longrightarrow> fst ` set (data c6) = fst ` set d)
   \<and> (crs_init (IVal PNone) kwargs = Inr c7 \<longrightarrow> fst ` set (data c7) = fst ` set kwargs)"
proof -
  have a: "from_epsg code = Inr c1 \<longrightarrow> fst ` set (data c1) \<subseteq> set all_proj_keys"
    using from_epsg_keys by blast
  have b: "from_wkt ext v = Inr c2 \<longrightarrow> fst ` set (data c2) \<subseteq> set all_proj_keys"
    using from_wkt_keys by blast
  have c: "\<not> is_json_string s \<and> from_string ext s = Inr c3 \<longrightarrow>
        fst ` set (data c3) \<subseteq> set all_proj_keys"
    using from_string_keys by blast
  have d: "from_user_input ext (UVal (PInt i)) = Inr c4 \<longrightarrow>
        fst ` set (data c4) \<subseteq> set all_proj_keys"
    using from_epsg_keys [of "CodeInt i" c4] by simp
  have e: "\<not> is_json_string t \<and> from_user_input ext (UVal (PStr t)) = Inr c5 \<longrightarrow>
        fst ` set (data c5) \<subseteq> set all_proj_keys"
    using from_string_keys [of t ext c5] by simp
  have f: "crs_init (IDict d) [] = Inr c6 \<longrightarrow> fst ` set (data c6) = fst ` set d"
  proof
    assume r: "crs_init (IDict d) [] = Inr c6"
    have "crs_init (IDict d) [] = Inr \<lparr>wkt = None, data = dict_of_pairs d\<rparr>"
      by (cases "d = []") (simp_all add: crs_init_dict)
    with r have "data c6 = dict_of_pairs d" by auto
    then show "fst ` set (data c6) = fst ` set d" by (simp only: dict_of_pairs_keys)
  qed
  have g: "crs_init (IVal PNone) kwargs = Inr c7 \<longrightarrow> fst ` set (data c7) = fst ` set kwargs"
  proof
    assume "crs_init (IVal PNone) kwargs = Inr c7"
    then have "data c7 = dict_of_pairs kwargs" by (auto simp: crs_init_default)
    then show "fst ` set (data c7) = fst ` set kwargs" by (simp only: dict_of_pairs_keys)
  qed
  from a b c d e f g show ?thesis by blast
qed


text \<open>
  The amended C2 at the EPSG code 4326, the text \<^verbatim>\<open>WGS84\<close>, a PROJ4 string with an
  unregistered token, and a mapping with an unregistered key.
\<close>

theorem registry_keys_where_filtered_witness:
  "from_epsg (CodeInt 4326) =
     Inr \<lparr>wkt = None, data = [(''init'', PStr ''epsg:4326''), (''no_defs'', PBool True)]\<rparr>
   \<and> from_user_input sample_ext (UVal (PInt 4326)) =
       Inr \<lparr>wkt = None, data = [(''init'', PStr ''epsg:4326''), (''no_defs'', PBool True)]\<rparr>
   \<and> fst ` set [(''init'', PStr ''epsg:4326''), (''no_defs'', PBool True)] \<subseteq> set all_proj_keys
   \<and> from_wkt sample_ext (PStr ''WGS84'') =
       Inr \<lparr>wkt = Some ''WGS84'',
            data = [(''proj'', PStr ''longlat''), (''datum'', PStr ''WGS84''),
                    (''no_defs'', PBool True)]\<rparr>
   \<and> fst ` set [(''proj'', PStr ''longlat''), (''datum'', PStr ''WGS84''),
                 (''no_defs'', PBool True)] \<subseteq> set all_proj_keys
   \<and> \<not> is_json_string ''+proj=longlat +bogus_key=5''
   \<and> from_string sample_ext ''+proj=longlat +bogus_key=5'' =
       Inr \<lparr>wkt = None, data = [(''proj'', PStr ''longlat'')]\<rparr>
   \<and> from_user_input sample_ext (UVal (PStr ''+proj=longlat +bogus_key=5'')) =
       Inr \<lparr>wkt = None, data = [(''proj'', PStr ''longlat'')]\<rparr>
   \<and> fst ` set [(''proj'', PStr ''longlat'')] \<subseteq> set all_proj_keys
   \<and> crs_init (IDict [(''bogus_key'', PInt 5)]) [] =
       Inr \<lparr>wkt = None, data = [(''bogus_key'', PInt 5)]\<rparr>
   \<and> crs_init (IVal PNone) [(''bogus_key'', PInt 5)] =
       Inr \<lparr>wkt = None, data = [(''bogus_key'', PInt 5)]\<rparr>
   \<and> fst ` set [(''bogus_key'', PInt 5)] = {''bogus_key''}"
proof -
  have h1: "from_epsg (CodeInt 4326) =
     Inr \<lparr>wkt = None, data = [(''init'', PStr ''epsg:4326''), (''no_defs'', PBool True)]\<rparr>"
    by code_simp
  have h2: "from_wkt sample_ext (PStr ''WGS84'') =
       Inr \<lparr>wkt = Some ''WGS84'',
            data = [(''proj'', PStr ''longlat''), (''datum'', PStr ''WGS84''),
                    (''no_defs'', PBool True)]\<rparr>"
    by code_simp
  have h3: "\<not> is_json_string ''+proj=longlat +bogus_key=5''"
    by (simp add: is_json_string_def)
  have h4: "from_string sample_ext ''+proj=longlat +bogus_key=5'' =
       Inr \<lparr>wkt = None, data = [(''proj'', PStr ''longlat'')]\<rparr>"
    by code_simp
  have h5: "from_user_input sample_ext (UVal (PInt 4326)) =
     Inr \<lparr>wkt = None, data = [(''init'', PStr ''epsg:4326''), (''no_defs'', PBool True)]\<rparr>"
    using h1 by simp
  have h6: "from_user_input sample_ext (UVal (PStr ''+proj=longlat +bogus_key=5'')) =
       Inr \<lparr>wkt = None, data = [(''proj'', PStr ''longlat'')]\<rparr>"
    using h4 by simp
  have h7: "crs_init (IDict [(''bogus_key'', PInt 5)]) [] =
       Inr \<lparr>wkt = None, data = [(''bogus_key'', PInt 5)]\<rparr>"
    by (simp add: crs_init_dict dict_of_pairs_def)
  have h8: "crs_init (IVal PNone) [(''bogus_key'', PInt 5)] =
       Inr \<lparr>wkt = None, data = [(''bogus_key'', PInt 5)]\<rparr>"
    by (simp add: crs_init_default dict_of_pairs_def)
  note inst = registry_keys_where_filtered [of "CodeInt 4326"
      "\<lparr>wkt = None, data = [(''init'', PStr ''epsg:4326''), (''no_defs'', PBool True)]\<rparr>"
      sample_ext "PStr ''WGS84''"
      "\<lparr>wkt = Some ''WGS84'',
            data = [(''proj'', PStr ''longlat''), (''datum'', PStr ''WGS84''),
                    (''no_defs'', PBool True)]\<rparr>"
      "''+proj=longlat +bogus_key=5''"
      "\<lparr>wkt = None, data = [(''proj'', PStr ''longlat'')]\<rparr>"
      4326
      "\<lparr>wkt = None, data = [(''init'', PStr ''epsg:4326''), (''no_defs'', PBool True)]\<rparr>"
      "''+proj=longlat +bogus_key=5''"
      "\<lparr>wkt = None, data = [(''proj'', PStr ''longlat'')]\<rparr>"
      "[(''bogus_key'', PInt 5)]"
      "\<lparr>wkt = None, data = [(''bogus_key'', PInt 5)]\<rparr>"
      "[(''bogus_key'', PInt 5)]"
      "\<lparr>wkt = None, data = [(''bogus_key'', PInt 5)]\<rparr>"]
  from inst h1 have c1:
    "fst ` set [(''init'', PStr ''epsg:4326''), (''no_defs'', PBool True)] \<subseteq> set all_proj_keys"
    by simp
  from inst h2 have c2:
    "fst ` set [(''proj'', PStr ''longlat''), (''datum'', PStr ''WGS84''),
                (''no_defs'', PBool True)] \<subseteq> set all_proj_keys"
    by simp
  from inst h3 h4 have c3: "fst ` set [(''proj'', PStr ''longlat'')] \<subseteq> set all_proj_keys"
    by simp
  have c6: "fst ` set [(''bogus_key'', PInt 5)] = {''bogus_key''}" by simp
  from h1 h5 c1 h2 c2 h3 h4 h6 c3 h7 h8 c6 show ?thesis by blast
qed




text \<open>
  C4, as stated, fails. On \<^verbatim>\<open>++proj=longlat +a=b=c\<close> the tokenizer of the source strips
  both plus signs of the first token and, because the second token has two equals signs,
  makes it the flag \<open>a\<close>; stripping one plus sign and splitting once, as the claim has
  it, gives the key \<^verbatim>\<open>+proj\<close> and the value \<^verbatim>\<open>b=c\<close>.
\<close>

theorem tokenizer_differs_from_wording:
  "proj4_items (float_repr sample_ext) ''++proj=longlat +a=b=c'' =
     [(''proj'', PStr ''longlat''), (''a'', PBool True)]
   \<and> worded_items (float_repr sample_ext) ''++proj=longlat +a=b=c'' =
       [(''+proj'', PStr ''longlat''), (''a'', PStr ''b=c'')]"
  by code_simp

text \<open>
  C4, amended. The tokenizer maps each whitespace-separated token of the string to one
  pair. All leading plus signs of the token are stripped and the rest is cut at every
  equals sign. A token without an equals sign becomes (token, true); a token with exactly
  one becomes (key, coerced raw value); a token with two or more becomes (the text before
  the first, true). The raw value is coerced by trying in this order: the literals
  \<^verbatim>\<open>True\<close>, \<^verbatim>\<open>true\<close> to true and \<^verbatim>\<open>False\<close>, \<^verbatim>\<open>false\<close> to false; the integer
  parse; the float parse; the raw string unchanged.
\<close>

theorem tokenizer_items:
  "proj4_items fl s =
     map (\<lambda>token. item fl (split_on (CHR ''='') (lstrip (CHR ''+'') token))) (split s)
   \<and> (t = [] \<or> hd t \<noteq> CHR ''+'' \<longrightarrow> lstrip (CHR ''+'') (replicate n (CHR ''+'') @ t) = t)
   \<and> (CHR ''='' \<notin> set t1 \<longrightarrow> item fl (split_on (CHR ''='') t1) = (t1, PBool True))
   \<and> (CHR ''='' \<notin> set k2 \<and> CHR ''='' \<notin> set v2 \<longrightarrow>
        item fl (split_on (CHR ''='') (k2 @ ''='' @ v2)) = (k2, parse fl v2))
   \<and> (CHR ''='' \<notin> set k3 \<and> CHR ''='' \<in> set v3 \<longrightarrow>
        item fl (split_on (CHR ''='') (k3 @ ''='' @ v3)) = (k3, PBool True))
   \<and> (x1 = ''True'' \<or> x1 = ''true'' \<longrightarrow> parse fl x1 = PBool True)
   \<and> (x2 = ''False'' \<or> x2 = ''false'' \<longrightarrow> parse fl x2 = PBool False)
   \<and> (x3 \<notin> {''True'', ''true'', ''False'', ''false''} \<and> int_of_str x3 = Some i \<longrightarrow>
        parse fl x3 = PInt i)
   \<and> (x4 \<notin> {''True'', ''true'', ''False'', ''false''} \<and> int_of_str x4 = None
        \<and> is_float_literal x4 \<longrightarrow> parse fl x4 = PFloat (fl x4))
   \<and> (x5 \<notin> {''True'', ''true'', ''False'', ''false''} \<and> int_of_str x5 = None
        \<and> \<not> is_float_literal x5 \<longrightarrow> parse fl x5 = PStr x5)"
proof -
  have a: "proj4_items fl s =
     map (\<lambda>token. item fl (split_on (CHR ''='') (lstrip (CHR ''+'') token))) (split s)"
    by (rule proj4_items_tokens)
  have b: "t = [] \<or> hd t \<noteq> CHR ''+'' \<longrightarrow> lstrip (CHR ''+'') (replicate n (CHR ''+'') @ t) = t"
    using lstrip_plus_run [of t n] by blast
  have c: "CHR ''='' \<notin> set t1 \<longrightarrow> item fl (split_on (CHR ''='') t1) = (t1, PBool True)"
    by (simp add: split_on_flag)
  have d: "CHR ''='' \<notin> set k2 \<and> CHR ''='' \<notin> set v2 \<longrightarrow>
        item fl (split_on (CHR ''='') (k2 @ ''='' @ v2)) = (k2, parse fl v2)"
    by (simp add: split_on_pair)
  have e: "CHR ''='' \<notin> set k3 \<and> CHR ''='' \<in> set v3 \<longrightarrow>
        item fl (split_on (CHR ''='') (k3 @ ''='' @ v3)) = (k3, PBool True)"
    by (simp add: split_on_many)
  have f: "x1 = ''True'' \<or> x1 = ''true'' \<longrightarrow> parse fl x1 = PBool True"
    by (auto simp: parse_def)
  have g: "x2 = ''False'' \<or> x2 = ''false'' \<longrightarrow> parse fl x2 = PBool False"
    by (auto simp: parse_def)
  have h: "x3 \<notin> {''True'', ''true'', ''False'', ''false''} \<and> int_of_str x3 = Some i \<longrightarrow>
        parse fl x3 = PInt i"
    by (simp add: parse_def)
  have i: "x4 \<notin> {''True'', ''true'', ''False'', ''false''} \<and> int_of_str x4 = None
        \<and> is_float_literal x4 \<longrightarrow> parse fl x4 = PFloat (fl x4)"
    by (simp add: parse_def float_of_str_def)
  have j: "x5 \<notin> {''True'', ''true'', ''False'', ''false''} \<and> int_of_str x5 = None
        \<and> \<not> is_float_literal x5 \<longrightarrow> parse fl x5 = PStr x5"
    by (simp add: parse_def float_of_str_def)
  from a b c d e f g h i j show ?thesis by blast
qed

text \<open>
  The amended C4 at a string with a doubled plus sign, a bare flag, a token with two
  equals signs, an integer and a float.
\<close>

theorem tokenizer_items_witness:
  "proj4_items (float_repr sample_ext) ''++proj=longlat +no_defs +a=b=c +zone=33 +k=1.5'' =
     map (\<lambda>token. item (float_repr sample_ext) (split_on (CHR ''='') (lstrip (CHR ''+'') token)))
       [''++proj=longlat'', ''+no_defs'', ''+a=b=c'', ''+zone=33'', ''+k=1.5'']
   \<and> lstrip (CHR ''+'') ''++proj=longlat'' = ''proj=longlat''
   \<and> item (float_repr sample_ext) (split_on (CHR ''='') ''no_defs'') = (''no_defs'', PBool True)
   \<and> item (float_repr sample_ext) (split_on (CHR ''='') ''proj=longlat'') =
       (''proj'', PStr ''longlat'')
   \<and> item (float_repr sample_ext) (split_on (CHR ''='') ''a=b=c'') = (''a'', PBool True)
   \<and> parse (float_repr sample_ext) ''true'' = PBool True
   \<and> parse (float_repr sample_ext) ''False'' = PBool False
   \<and> parse (float_repr sample_ext) ''33'' = PInt 33
   \<and> parse (float_repr sample_ext) ''1.5'' = PFloat ''1.5''
   \<and> parse (float_repr sample_ext) ''longlat'' = PStr ''longlat''"
proof -
  have sp: "split ''++proj=longlat +no_defs +a=b=c +zone=33 +k=1.5'' =
      [''++proj=longlat'', ''+no_defs'', ''+a=b=c'', ''+zone=33'', ''+k=1.5'']"
    by code_simp
  have h1: "''proj=longlat'' = [] \<or> hd ''proj=longlat'' \<noteq> CHR ''+''" by simp
  have h2: "CHR ''='' \<notin> set ''no_defs''" by simp
  have h3: "CHR ''='' \<notin> set ''proj'' \<and> CHR ''='' \<notin> set ''longlat''" by simp
  have h4: "CHR ''='' \<notin> set ''a'' \<and> CHR ''='' \<in> set ''b=c''" by simp
  have h5: "''true'' = ''True'' \<or> ''true'' = ''true''" by simp
  have h6: "''False'' = ''False'' \<or> ''False'' = ''false''" by simp
  have h7: "''33'' \<notin> {''True'', ''true'', ''False'', ''false''} \<and> int_of_str ''33'' = Some 33"
    by code_simp
  have h8: "''1.5'' \<notin> {''True'', ''true'', ''False'', ''false''} \<and> int_of_str ''1.5'' = None
      \<and> is_float_literal ''1.5''"
    by code_simp
  have h9: "''longlat'' \<notin> {''True'', ''true'', ''False'', ''false''}
      \<and> int_of_str ''longlat'' = None \<and> \<not> is_float_literal ''longlat''"
    by code_simp
  note inst = tokenizer_items [of "float_repr sample_ext"
      "''++proj=longlat +no_defs +a=b=c +zone=33 +k=1.5''" "''proj=longlat''" 2
      "''no_defs''" "''proj''" "''longlat''" "''a''" "''b=c''" "''true''" "''False''"
      "''33''" 33 "''1.5''" "''longlat''"]
  from inst h9 have pv: "parse (float_repr sample_ext) ''longlat'' = PStr ''longlat''"
    by blast
  from inst sp have c0:
    "proj4_items (float_repr sample_ext) ''++proj=longlat +no_defs +a=b=c +zone=33 +k=1.5'' =
     map (\<lambda>token. item (float_repr sample_ext) (split_on (CHR ''='') (lstrip (CHR ''+'') token)))
       [''++proj=longlat'', ''+no_defs'', ''+a=b=c'', ''+zone=33'', ''+k=1.5'']"
    by simp
  from inst h1 have "lstrip (CHR ''+'') (replicate 2 (CHR ''+'') @ ''proj=longlat'') = ''proj=longlat''"
    by blast
  then have c1: "lstrip (CHR ''+'') ''++proj=longlat'' = ''proj=longlat''"
    by (simp add: numeral_2_eq_2)
  from inst h2 have c2:
    "item (float_repr sample_ext) (split_on (CHR ''='') ''no_defs'') = (''no_defs'', PBool True)"
    by blast
  from inst h3 have "item (float_repr sample_ext) (split_on (CHR ''='') (''proj'' @ ''='' @ ''longlat''))
      = (''proj'', parse (float_repr sample_ext) ''longlat'')"
    by blast
  with pv have c3: "item (float_repr sample_ext) (split_on (CHR ''='') ''proj=longlat'') =
       (''proj'', PStr ''longlat'')"
    by simp
  from inst h4 have "item (float_repr sample_ext) (split_on (CHR ''='') (''a'' @ ''='' @ ''b=c''))
      = (''a'', PBool True)"
    by blast
  then have c4: "item (float_repr sample_ext) (split_on (CHR ''='') ''a=b=c'') = (''a'', PBool True)"
    by simp
  from inst h5 have c5: "parse (float_repr sample_ext) ''true'' = PBool True" by blast
  from inst h6 have c6: "parse (float_repr sample_ext) ''False'' = PBool False" by blast
  from inst h7 have c7: "parse (float_repr sample_ext) ''33'' = PInt 33" by blast
  from inst h8 have "parse (float_repr sample_ext) ''1.5'' = PFloat (float_repr sample_ext ''1.5'')"
    by blast
  then have c8: "parse (float_repr sample_ext) ''1.5'' = PFloat ''1.5''"
    by (simp add: sample_ext_def)
  from c0 c1 c2 c3 c4 c5 c6 c7 c8 pv show ?thesis by blast
qed

text \<open>
  C5. \<^verbatim>\<open>from_string("+proj=longlat +datum=WGS84 +no_defs")\<close> returns a CRS whose
  parameters are exactly \<open>proj = "longlat"\<close>, \<open>datum = "WGS84"\<close>, \<open>no_defs = true\<close>, in
  this order and with no cached WKT. On a PROJ4-style string the keys stored are the
  keys of the tokens that are in the registry, so a token such as \<^verbatim>\<open>+bogus_key=5\<close> leaves
  no trace; and when no token has a registered key, \<open>from_string\<close> raises the domain
  error whose message starts with "CRS is empty or invalid". All of this holds whatever
  the externals are.
\<close>

theorem from_string_proj4:
  "from_string ext ''+proj=longlat +datum=WGS84 +no_defs'' =
     Inr \<lparr>wkt = None,
          data = [(''proj'', PStr ''longlat''), (''datum'', PStr ''WGS84''),
                  (''no_defs'', PBool True)]\<rparr>
   \<and> from_string ext ''+proj=longlat +bogus_key=5'' =
       Inr \<lparr>wkt = None, data = [(''proj'', PStr ''longlat'')]\<rparr>
   \<and> (is_proj4_string s \<and> from_string ext s = Inr c \<longrightarrow>
        fst ` set (data c) =
          {k \<in> fst ` set (proj4_items (float_repr ext) s). k \<in> set all_proj_keys})
   \<and> (is_proj4_string t \<and> registered (proj4_items (float_repr ext) t) = [] \<longrightarrow>
        from_string ext t = Inl (CRSError (''CRS is empty or invalid: '' @ t)))"
proof -
  have a: "from_string ext ''+proj=longlat +datum=WGS84 +no_defs'' =
     Inr \<lparr>wkt = None,
          data = [(''proj'', PStr ''longlat''), (''datum'', PStr ''WGS84''),
                  (''no_defs'', PBool True)]\<rparr>"
    by code_simp
  have b: "from_string ext ''+proj=longlat +bogus_key=5'' =
       Inr \<lparr>wkt = None, data = [(''proj'', PStr ''longlat'')]\<rparr>"
    by code_simp
  have c: "is_proj4_string s \<and> from_string ext s = Inr c \<longrightarrow>
        fst ` set (data c) =
          {k \<in> fst ` set (proj4_items (float_repr ext) s). k \<in> set all_proj_keys}"
  proof (intro impI, elim conjE)
    assume p: "is_proj4_string s" and r: "from_string ext s = Inr c"
    from r have "data c = dict_of_pairs (registered (proj4_items (float_repr ext) s))"
      by (auto simp: from_string_proj4_branch [OF p] split: if_splits)
    then show "fst ` set (data c) =
          {k \<in> fst ` set (proj4_items (float_repr ext) s). k \<in> set all_proj_keys}"
      by (simp only: dict_of_pairs_keys registered_keys_eq)
  qed
  have d: "is_proj4_string t \<and> registered (proj4_items (float_repr ext) t) = [] \<longrightarrow>
        from_string ext t = Inl (CRSError (''CRS is empty or invalid: '' @ t))"
    by (simp add: from_string_proj4_branch)
  from a b c d show ?thesis by blast
qed

text \<open>
  The general parts of C5 at \<^verbatim>\<open>+proj=longlat +bogus_key=5\<close> and at \<^verbatim>\<open>+bogus_key=5\<close>.
\<close>

theorem from_string_proj4_witness:
  "is_proj4_string ''+proj=longlat +bogus_key=5''
   \<and> from_string sample_ext ''+proj=longlat +bogus_key=5'' =
       Inr \<lparr>wkt = None, data = [(''proj'', PStr ''longlat'')]\<rparr>
   \<and> fst ` set (data \<lparr>wkt = None, data = [(''proj'', PStr ''longlat'')]\<rparr>) =
       {k \<in> fst ` set (proj4_items (float_repr sample_ext) ''+proj=longlat +bogus_key=5'').
          k \<in> set all_proj_keys}
   \<and> is_proj4_string ''+bogus_key=5''
   \<and> registered (proj4_items (float_repr sample_ext) ''+bogus_key=5'') = []
   \<and> from_string sample_ext ''+bogus_key=5'' =
       Inl (CRSError ''CRS is empty or invalid: +bogus_key=5'')"
proof -
  have h1: "is_proj4_string ''+proj=longlat +bogus_key=5''" by code_simp
  have h2: "from_string sample_ext ''+proj=longlat +bogus_key=5'' =
       Inr \<lparr>wkt = None, data = [(''proj'', PStr ''longlat'')]\<rparr>" by code_simp
  have h3: "is_proj4_string ''+bogus_key=5''" by code_simp
  have h4: "registered (proj4_items (float_repr sample_ext) ''+bogus_key=5'') = []"
    by code_simp
  note inst = from_string_proj4 [of sample_ext "''+proj=longlat +bogus_key=5''"
      "\<lparr>wkt = None, data = [(''proj'', PStr ''longlat'')]\<rparr>" "''+bogus_key=5''"]
  from inst h1 h2 have c1: "fst ` set (data \<lparr>wkt = None, data = [(''proj'', PStr ''longlat'')]\<rparr>) =
       {k \<in> fst ` set (proj4_items (float_repr sample_ext) ''+proj=longlat +bogus_key=5'').
          k \<in> set all_proj_keys}" by blast
  from inst h3 h4 have c2: "from_string sample_ext ''+bogus_key=5'' =
       Inl (CRSError (''CRS is empty or invalid: '' @ ''+bogus_key=5''))" by blast
  then have c3: "from_string sample_ext ''+bogus_key=5'' =
       Inl (CRSError ''CRS is empty or invalid: +bogus_key=5'')" by simp
  from h1 h2 h3 h4 c1 c3 show ?thesis by blast
qed

text \<open>
  C6 at two inputs where the code departs from it. Both texts take the JSON branch and
  decode to a non-empty object, which the source passes on as \<^verbatim>\<open>cls(**val)\<close>. The key
  \<^verbatim>\<open>self\<close> collides with the bound first argument, so \<^verbatim>\<open>TypeError\<close> leaves a branch
  that turns its other failures into the domain error; the key \<^verbatim>\<open>initialdata\<close> binds the
  parameter of that name, here to a false value, and is not stored. The same mapping
  given to the constructor directly is stored whole.
\<close>

theorem json_branch_kwargs_binding:
  \<open>is_json_string ''{"self": 1}''
   \<and> json_loads sample_ext ''{"self": 1}'' = Some [(''self'', PInt 1)]
   \<and> from_string sample_ext ''{"self": 1}'' = Inl TypeError
   \<and> is_json_string ''{"initialdata": 0, "proj": "longlat"}''
   \<and> json_loads sample_ext ''{"initialdata": 0, "proj": "longlat"}'' =
       Some [(''initialdata'', PInt 0), (''proj'', PStr ''longlat'')]
   \<and> from_string sample_ext ''{"initialdata": 0, "proj": "longlat"}'' =
       Inr \<lparr>wkt = None, data = [(''proj'', PStr ''longlat'')]\<rparr>
   \<and> crs_init (IDict [(''self'', PInt 1)]) [] =
       Inr \<lparr>wkt = None, data = [(''self'', PInt 1)]\<rparr>
   \<and> crs_init (IDict [(''initialdata'', PInt 0), (''proj'', PStr ''longlat'')]) [] =
       Inr \<lparr>wkt = None,
            data = [(''initialdata'', PInt 0), (''proj'', PStr ''longlat'')]\<rparr>\<close>
  by code_simp

text \<open>
  What the JSON branch does everywhere else. For a string that does not start with
  \<^verbatim>\<open>EPSG:\<close> (trimmed, in any case) and contains an opening brace: when it does not
  decode, \<^verbatim>\<open>from_string\<close> raises the domain error "CRS appears to be JSON but is not
  valid"; when it decodes to the empty object, the domain error "CRS is empty JSON"; and
  when it decodes to a non-empty object none of whose keys is \<^verbatim>\<open>self\<close> or
  \<^verbatim>\<open>initialdata\<close>, the CRS holds exactly the decoded key/value pairs, in their order,
  with no cached WKT and without any registry filter.
\<close>

theorem from_string_json:
  "(is_json_string s1 \<and> json_loads ext s1 = None \<longrightarrow>
      from_string ext s1 = Inl (CRSError ''CRS appears to be JSON but is not valid''))
   \<and> (is_json_string s2 \<and> json_loads ext s2 = Some [] \<longrightarrow>
        from_string ext s2 = Inl (CRSError ''CRS is empty JSON''))
   \<and> (is_json_string s3 \<and> json_loads ext s3 = Some d \<and> d \<noteq> []
        \<and> distinct (map fst d)
        \<and> ''self'' \<notin> fst ` set d \<and> ''initialdata'' \<notin> fst ` set d \<longrightarrow>
        from_string ext s3 = Inr \<lparr>wkt = None, data = d\<rparr>)"
proof -
  have a: "is_json_string s1 \<and> json_loads ext s1 = None \<longrightarrow>
      from_string ext s1 = Inl (CRSError ''CRS appears to be JSON but is not valid'')"
    by (simp add: from_string_json_branch)
  have b: "is_json_string s2 \<and> json_loads ext s2 = Some [] \<longrightarrow>
        from_string ext s2 = Inl (CRSError ''CRS is empty JSON'')"
    by (simp add: from_string_json_branch)
  have c: "is_json_string s3 \<and> json_loads ext s3 = Some d \<and> d \<noteq> []
        \<and> distinct (map fst d)
        \<and> ''self'' \<notin> fst ` set d \<and> ''initialdata'' \<notin> fst ` set d \<longrightarrow>
        from_string ext s3 = Inr \<lparr>wkt = None, data = d\<rparr>"
    by (simp add: from_string_json_branch call_kwargs_plain dict_of_pairs_distinct)
  from a b c show ?thesis by blast
qed

text \<open>
  The JSON branch with the test double's decoder, at a text that does not decode, at
  \<^verbatim>\<open>{}\<close>, and at an object with an unregistered key.
\<close>

theorem from_string_json_witness:
  \<open>is_json_string ''not json {'' \<and> json_loads sample_ext ''not json {'' = None
   \<and> from_string sample_ext ''not json {'' =
       Inl (CRSError ''CRS appears to be JSON but is not valid'')
   \<and> is_json_string ''{}'' \<and> json_loads sample_ext ''{}'' = Some []
   \<and> from_string sample_ext ''{}'' = Inl (CRSError ''CRS is empty JSON'')
   \<and> is_json_string ''{"proj": "longlat", "bogus_key": 5}''
   \<and> json_loads sample_ext ''{"proj": "longlat", "bogus_key": 5}'' =
       Some [(''proj'', PStr ''longlat''), (''bogus_key'', PInt 5)]
   \<and> from_string sample_ext ''{"proj": "longlat", "bogus_key": 5}'' =
       Inr \<lparr>wkt = None, data = [(''proj'', PStr ''longlat''), (''bogus_key'', PInt 5)]\<rparr>\<close>
proof -
  have h1: \<open>is_json_string ''not json {'' \<and> json_loads sample_ext ''not json {'' = None\<close>
    by code_simp
  have h2: "is_json_string ''{}'' \<and> json_loads sample_ext ''{}'' = Some []"
    by code_simp
  have h3: \<open>is_json_string ''{"proj": "longlat", "bogus_key": 5}''
   \<and> json_loads sample_ext ''{"proj": "longlat", "bogus_key": 5}'' =
       Some [(''proj'', PStr ''longlat''), (''bogus_key'', PInt 5)]\<close>
    by code_simp
  have h4: "[(''proj'', PStr ''longlat''), (''bogus_key'', PInt 5)] \<noteq> []
    \<and> distinct (map fst [(''proj'', PStr ''longlat''), (''bogus_key'', PInt 5)])
    \<and> ''self'' \<notin> fst ` set [(''proj'', PStr ''longlat''), (''bogus_key'', PInt 5)]
    \<and> ''initialdata'' \<notin> fst ` set [(''proj'', PStr ''longlat''), (''bogus_key'', PInt 5)]"
    by simp
  note inst = from_string_json [of \<open>''not json {''\<close> sample_ext "''{}''"
      \<open>''{"proj": "longlat", "bogus_key": 5}''\<close>
      "[(''proj'', PStr ''longlat''), (''bogus_key'', PInt 5)]"]
  from inst h1 have c1: \<open>from_string sample_ext ''not json {'' =
       Inl (CRSError ''CRS appears to be JSON but is not valid'')\<close>
    by blast
  from inst h2 have c2: "from_string sample_ext ''{}'' = Inl (CRSError ''CRS is empty JSON'')"
    by blast
  from inst h3 h4 have c3: \<open>from_string sample_ext ''{"proj": "longlat", "bogus_key": 5}'' =
       Inr \<lparr>wkt = None, data = [(''proj'', PStr ''longlat''), (''bogus_key'', PInt 5)]\<rparr>\<close>
    by blast
  from h1 c1 h2 c2 h3 c3 show ?thesis by blast
qed




text \<open>
  C8, as stated, fails in its last part. \<^verbatim>\<open>CRS({'proj': 'nonsense'})\<close> is constructed
  without error, and with an engine that rejects \<^verbatim>\<open>+proj=nonsense\<close> comparing it with
  itself raises the domain error instead of returning true.
\<close>

theorem eq_not_reflexive_when_rejected:
  "crs_init (IDict [(''proj'', PStr ''nonsense'')]) [] =
     Inr \<lparr>wkt = None, data = [(''proj'', PStr ''nonsense'')]\<rparr>
   \<and> crs_eq sample_ext \<lparr>wkt = None, data = [(''proj'', PStr ''nonsense'')]\<rparr>
        \<lparr>wkt = None, data = [(''proj'', PStr ''nonsense'')]\<rparr> = Inl (CRSError ''OGR Error'')"
  by code_simp

text \<open>
  C8, amended. When either operand of \<^verbatim>\<open>==\<close> is empty the result is "both are empty",
  and it is the same for any two engines, so none is consulted; \<^verbatim>\<open>CRS() == CRS()\<close> is
  true; an empty CRS equals itself. A non-empty CRS equals itself when the engine
  interprets its canonical form and reports the handle equivalent to itself; when the
  engine rejects the canonical form the comparison raises the domain error with the
  engine's message.
\<close>

theorem eq_empty_and_reflexive:
  "(\<not> crs_bool a \<or> \<not> crs_bool b \<longrightarrow>
      crs_eq ext a b = Inr (\<not> crs_bool a \<and> \<not> crs_bool b)
      \<and> crs_eq ext a b = crs_eq ext' a b)
   \<and> crs_init (IVal PNone) [] = Inr \<lparr>wkt = None, data = []\<rparr>
   \<and> crs_eq ext \<lparr>wkt = None, data = []\<rparr> \<lparr>wkt = None, data = []\<rparr> = Inr True
   \<and> (\<not> crs_bool c1 \<longrightarrow> crs_eq ext c1 c1 = Inr True)
   \<and> (crs_bool c2 \<and> OSRSetFromUserInput ext (wkt_or_proj c2) = Inr h
        \<and> OSRIsSame ext h h = 1 \<longrightarrow> crs_eq ext c2 c2 = Inr True)
   \<and> (crs_bool c3 \<and> OSRSetFromUserInput ext (wkt_or_proj c3) = Inl m \<longrightarrow>
        crs_eq ext c3 c3 = Inl (CRSError m))"
  by (auto simp: crs_eq_def crs_bool_def crs_len_def osr_from_crs_def crs_init_default
      dict_of_pairs_def)

text \<open>
  The amended C8 with the test double: the empty CRS, a CRS the engine accepts and a CRS
  it rejects.
\<close>

theorem eq_empty_and_reflexive_witness:
  "\<not> crs_bool \<lparr>wkt = None, data = []\<rparr>
   \<and> crs_eq sample_ext \<lparr>wkt = None, data = []\<rparr>
        \<lparr>wkt = None, data = [(''proj'', PStr ''longlat'')]\<rparr> = Inr False
   \<and> crs_eq sample_ext \<lparr>wkt = None, data = []\<rparr> \<lparr>wkt = None, data = []\<rparr> = Inr True
   \<and> crs_bool \<lparr>wkt = Some ''WGS84'', data = [(''proj'', PStr ''longlat'')]\<rparr>
   \<and> OSRSetFromUserInput sample_ext
        (wkt_or_proj \<lparr>wkt = Some ''WGS84'', data = [(''proj'', PStr ''longlat'')]\<rparr>) = Inr ''WGS 84''
   \<and> OSRIsSame sample_ext ''WGS 84'' ''WGS 84'' = 1
   \<and> crs_eq sample_ext \<lparr>wkt = Some ''WGS84'', data = [(''proj'', PStr ''longlat'')]\<rparr>
        \<lparr>wkt = Some ''WGS84'', data = [(''proj'', PStr ''longlat'')]\<rparr> = Inr True
   \<and> crs_bool \<lparr>wkt = None, data = [(''proj'', PStr ''nonsense'')]\<rparr>
   \<and> OSRSetFromUserInput sample_ext
        (wkt_or_proj \<lparr>wkt = None, data = [(''proj'', PStr ''nonsense'')]\<rparr>) = Inl ''OGR Error''
   \<and> crs_eq sample_ext \<lparr>wkt = None, data = [(''proj'', PStr ''nonsense'')]\<rparr>
        \<lparr>wkt = None, data = [(''proj'', PStr ''nonsense'')]\<rparr> = Inl (CRSError ''OGR Error'')"
proof -
  let ?e = "\<lparr>wkt = None, data = []\<rparr>"
  let ?p = "\<lparr>wkt = None, data = [(''proj'', PStr ''longlat'')]\<rparr>"
  let ?g = "\<lparr>wkt = Some ''WGS84'', data = [(''proj'', PStr ''longlat'')]\<rparr>"
  let ?n = "\<lparr>wkt = None, data = [(''proj'', PStr ''nonsense'')]\<rparr>"
  have h1: "\<not> crs_bool ?e" by (simp add: crs_bool_def crs_len_def)
  have h2: "crs_bool ?p" by (simp add: crs_bool_def crs_len_def)
  have h3: "crs_bool ?g \<and> OSRSetFromUserInput sample_ext (wkt_or_proj ?g) = Inr ''WGS 84''
      \<and> OSRIsSame sample_ext ''WGS 84'' ''WGS 84'' = 1"
    by code_simp
  have h4: "crs_bool ?n \<and> OSRSetFromUserInput sample_ext (wkt_or_proj ?n) = Inl ''OGR Error''"
    by code_simp
  note inst1 = eq_empty_and_reflexive [of ?e ?p sample_ext sample_ext ?e ?g "''WGS 84''" ?n
      "''OGR Error''"]
  from inst1 h1 have "crs_eq sample_ext ?e ?p = Inr (\<not> crs_bool ?e \<and> \<not> crs_bool ?p)" by blast
  with h1 h2 have r1: "crs_eq sample_ext ?e ?p = Inr False" by simp
  from inst1 h1 have r2: "crs_eq sample_ext ?e ?e = Inr True" by blast
  from inst1 h3 have r3: "crs_eq sample_ext ?g ?g = Inr True" by blast
  from inst1 h4 have r4: "crs_eq sample_ext ?n ?n = Inl (CRSError ''OGR Error'')" by blast
  from h1 r1 r2 h3 r3 h4 r4 show ?thesis by blast
qed

text \<open>
  C9. \<^verbatim>\<open>CRS()\<close> has no parameters and no cached WKT, and on every such CRS
  \<^verbatim>\<open>to_dict()\<close> skips the branch for non-empty parameters and fails with an attribute error
  on the missing WKT: it neither returns an empty mapping nor raises the domain error,
  whatever the engine is.
\<close>

theorem to_dict_empty_AttributeError:
  "crs_init (IVal PNone) [] = Inr \<lparr>wkt = None, data = []\<rparr>
   \<and> (wkt c = None \<and> data c = [] \<longrightarrow> to_dict ext c = Inl AttributeError)"
  by (simp add: crs_init_default dict_of_pairs_def to_dict_def)

text \<open>C9 at the empty CRS, with the test double as externals.\<close>

theorem to_dict_empty_AttributeError_witness:
  "wkt \<lparr>wkt = None, data = []\<rparr> = None \<and> data \<lparr>wkt = None, data = []\<rparr> = []
   \<and> to_dict sample_ext \<lparr>wkt = None, data = []\<rparr> = Inl AttributeError"
  using to_dict_empty_AttributeError [of "\<lparr>wkt = None, data = []\<rparr>" sample_ext] by simp

text \<open>
  C10. The length of a CRS is the number of its stored parameters and its truth value is
  whether that number is not zero; neither changes when the cached WKT is replaced. In
  \<^verbatim>\<open>==\<close>, an operand without stored parameters makes the result "the other operand has
  none either", for every engine, so a CRS with a cached WKT and no parameters equals
  \<^verbatim>\<open>CRS()\<close>.
\<close>

theorem emptiness_ignores_wkt:
  "crs_len c = length (data c)
   \<and> crs_bool c = (data c \<noteq> [])
   \<and> crs_len (c\<lparr>wkt := w\<rparr>) = crs_len c
   \<and> crs_bool (c\<lparr>wkt := w\<rparr>) = crs_bool c
   \<and> (data a = [] \<longrightarrow> crs_eq ext a b = Inr (data b = []))
   \<and> (data b = [] \<longrightarrow> crs_eq ext a b = Inr (data a = []))
   \<and> (data a = [] \<longrightarrow> crs_eq ext a \<lparr>wkt = None, data = []\<rparr> = Inr True)"
  by (auto simp: crs_len_def crs_bool_def crs_eq_def)

text \<open>C10 at a CRS that holds the cached text \<^verbatim>\<open>WGS84\<close> and no parameters.\<close>

theorem emptiness_ignores_wkt_witness:
  "data \<lparr>wkt = Some ''WGS84'', data = []\<rparr> = []
   \<and> crs_eq sample_ext \<lparr>wkt = Some ''WGS84'', data = []\<rparr> \<lparr>wkt = None, data = []\<rparr> = Inr True
   \<and> crs_eq sample_ext \<lparr>wkt = Some ''WGS84'', data = []\<rparr>
        \<lparr>wkt = None, data = [(''proj'', PStr ''longlat'')]\<rparr> = Inr False"
  using emptiness_ignores_wkt [of _ _ "\<lparr>wkt = Some ''WGS84'', data = []\<rparr>" sample_ext
      "\<lparr>wkt = None, data = [(''proj'', PStr ''longlat'')]\<rparr>"]
  by simp

end
